theory Spec2Isabelle
  imports Main "HOL-Library.Multiset"
begin

section \<open>JavaScript strings and the name normalisation of data.js\<close>

text \<open>
  A JavaScript string is a sequence of UTF-16 code units; the regular expressions of
  \<^verbatim>\<open>normalizeName\<close> carry no \<^verbatim>\<open>u\<close> flag, so they work on code units. Country
  names are therefore lists of code units. Country codes are only ever compared with
  \<^verbatim>\<open>===\<close>, so they are kept as plain strings.
\<close>

type_synonym jsstring = "nat list"

definition ustr :: "string \<Rightarrow> jsstring" where
  "ustr s = map of_char s"

text \<open>
  \<^verbatim>\<open>String.prototype.toLowerCase\<close> and \<^verbatim>\<open>String.prototype.normalize('NFD')\<close> are
  built-ins of the JavaScript engine driven by the Unicode character database, which
  is not part of the repository. They are parameters of the model.
\<close>

record js_builtins =
  toLowerCase :: "jsstring \<Rightarrow> jsstring"
  normalizeNFD :: "jsstring \<Rightarrow> jsstring"

text \<open>The character class of the combining diacritical marks, U+0300 to U+036F.\<close>

definition isCombiningMark :: "nat \<Rightarrow> bool" where
  "isCombiningMark u = (768 \<le> u \<and> u \<le> 879)"

text \<open>The class \<^verbatim>\<open>\w\<close>, that is \<^verbatim>\<open>[A-Za-z0-9_]\<close>.\<close>

definition isWordChar :: "nat \<Rightarrow> bool" where
  "isWordChar u = ((65 \<le> u \<and> u \<le> 90) \<or> (97 \<le> u \<and> u \<le> 122) \<or> (48 \<le> u \<and> u \<le> 57) \<or> u = 95)"

text \<open>
  The class \<^verbatim>\<open>\s\<close> of ECMAScript: the WhiteSpace and LineTerminator code points.
  \<^verbatim>\<open>trim\<close> strips the same set.
\<close>

definition isSpaceChar :: "nat \<Rightarrow> bool" where
  "isSpaceChar u = (u \<in> {9, 10, 11, 12, 13, 32, 160, 5760, 8232, 8233, 8239, 8287, 12288, 65279}
     \<or> (8192 \<le> u \<and> u \<le> 8202))"

text \<open>\<^verbatim>\<open>.replace(/\s+/g, ' ')\<close>: every maximal run of white space becomes one space.\<close>

function collapseSpaces :: "jsstring \<Rightarrow> jsstring" where
  "collapseSpaces [] = []"
| "collapseSpaces (u # us) =
     (if isSpaceChar u then 32 # collapseSpaces (dropWhile isSpaceChar us)
      else u # collapseSpaces us)"
  by pat_completeness auto
termination
  by (relation "measure length") (auto simp: length_dropWhile_le less_Suc_eq_le)

definition trim :: "jsstring \<Rightarrow> jsstring" where
  "trim us = rev (dropWhile isSpaceChar (rev (dropWhile isSpaceChar us)))"

text \<open>
  \<^verbatim>\<open>normalizeName\<close> (data.js, lines 140-148): lower-case, decompose, drop the combining
  marks, drop everything that is neither a word character nor white space, collapse
  white space, trim.
\<close>

definition normalizeName :: "js_builtins \<Rightarrow> jsstring \<Rightarrow> jsstring" where
  "normalizeName b str =
     trim (collapseSpaces (filter (\<lambda>u. isWordChar u \<or> isSpaceChar u)
       (filter (\<lambda>u. \<not> isCombiningMark u) (normalizeNFD b (toLowerCase b str)))))"

text \<open>\<^verbatim>\<open>String.prototype.includes\<close>: the needle occurs as a contiguous block.\<close>

fun isPrefixOf :: "jsstring \<Rightarrow> jsstring \<Rightarrow> bool" where
  "isPrefixOf [] hay = True"
| "isPrefixOf (n # ns) [] = False"
| "isPrefixOf (n # ns) (h # hs) = (n = h \<and> isPrefixOf ns hs)"

fun jsIncludes :: "jsstring \<Rightarrow> jsstring \<Rightarrow> bool" where
  "jsIncludes [] needle = (needle = [])"
| "jsIncludes (h # hs) needle = (isPrefixOf needle (h # hs) \<or> jsIncludes hs needle)"

subsection \<open>The built-ins on Basic Latin and Latin-1\<close>

text \<open>
  For evaluating the model on concrete names, the two built-ins restricted to strings
  whose code units are below 256: the Unicode lower-case mapping and the canonical
  decomposition of the Latin-1 Supplement letters. Outside that range the engine's
  tables apply and these functions say nothing.
\<close>

definition latin1LowerUnit :: "nat \<Rightarrow> nat" where
  "latin1LowerUnit u =
     (if (65 \<le> u \<and> u \<le> 90) \<or> (192 \<le> u \<and> u \<le> 222 \<and> u \<noteq> 215) then u + 32 else u)"

definition latin1Decomposition :: "(nat \<times> nat list) list" where
  "latin1Decomposition =
    [(192, [65, 768]), (193, [65, 769]), (194, [65, 770]), (195, [65, 771]),
     (196, [65, 776]), (197, [65, 778]), (199, [67, 807]),
     (200, [69, 768]), (201, [69, 769]), (202, [69, 770]), (203, [69, 776]),
     (204, [73, 768]), (205, [73, 769]), (206, [73, 770]), (207, [73, 776]),
     (209, [78, 771]),
     (210, [79, 768]), (211, [79, 769]), (212, [79, 770]), (213, [79, 771]),
     (214, [79, 776]),
     (217, [85, 768]), (218, [85, 769]), (219, [85, 770]), (220, [85, 776]),
     (221, [89, 769]),
     (224, [97, 768]), (225, [97, 769]), (226, [97, 770]), (227, [97, 771]),
     (228, [97, 776]), (229, [97, 778]), (231, [99, 807]),
     (232, [101, 768]), (233, [101, 769]), (234, [101, 770]), (235, [101, 776]),
     (236, [105, 768]), (237, [105, 769]), (238, [105, 770]), (239, [105, 776]),
     (241, [110, 771]),
     (242, [111, 768]), (243, [111, 769]), (244, [111, 770]), (245, [111, 771]),
     (246, [111, 776]),
     (249, [117, 768]), (250, [117, 769]), (251, [117, 770]), (252, [117, 776]),
     (253, [121, 769]), (255, [121, 776])]"

definition latin1NfdUnit :: "nat \<Rightarrow> nat list" where
  "latin1NfdUnit u = (case map_of latin1Decomposition u of None \<Rightarrow> [u] | Some d \<Rightarrow> d)"

definition latin1 :: js_builtins where
  "latin1 = \<lparr> toLowerCase = map latin1LowerUnit, normalizeNFD = concat \<circ> map latin1NfdUnit \<rparr>"

section \<open>The country directory (data.js)\<close>

text \<open>
  \<^verbatim>\<open>countries.json\<close> maps a code to \<^verbatim>\<open>{code, name, aliases}\<close>; \<^verbatim>\<open>neighbors.json\<close>
  maps a code to an array of codes. Both are JavaScript objects whose keys are not
  integer-like, so \<^verbatim>\<open>Object.values\<close> and \<^verbatim>\<open>Object.entries\<close> enumerate them in
  insertion order: the tables are association lists in that order, read with
  \<^const>\<open>map_of\<close>. The code tests \<^verbatim>\<open>country.aliases\<close> for truthiness before it
  iterates, so the field may be absent. Several objects of the source share the
  property names \<^verbatim>\<open>code\<close> and \<^verbatim>\<open>name\<close>; the fields of each record carry a prefix
  (\<open>c_\<close> for a country, \<open>r_\<close> for a search result, \<open>g_\<close> for a guess, \<open>n_\<close> for a
  neighbor entry, \<open>st_\<close> for the state snapshot).
\<close>

record country =
  c_code :: string
  c_name :: jsstring
  c_aliases :: "jsstring list option"

type_synonym country_table = "(string \<times> country) list"
type_synonym neighbor_table = "(string \<times> string list) list"

text \<open>
  The module variables \<^verbatim>\<open>countriesData\<close> and \<^verbatim>\<open>neighborsData\<close> after
  \<^verbatim>\<open>loadGameData\<close> has resolved. main.js awaits the load before it constructs the
  \<^verbatim>\<open>GameState\<close>, so the methods of game.js only ever run against loaded tables. The
  functions of data.js that guard against the unloaded value \<^verbatim>\<open>null\<close> take the table
  as an option.
\<close>

record directory =
  countriesData :: country_table
  neighborsData :: neighbor_table

definition getNeighbors :: "directory \<Rightarrow> string \<Rightarrow> string list" where
  "getNeighbors d countryCode =
     (case map_of (neighborsData d) countryCode of None \<Rightarrow> [] | Some ns \<Rightarrow> ns)"

definition aliasMatches :: "js_builtins \<Rightarrow> jsstring \<Rightarrow> country \<Rightarrow> bool" where
  "aliasMatches b normalized c =
     (case c_aliases c of None \<Rightarrow> False
      | Some as \<Rightarrow> list_ex (\<lambda>alias. normalizeName b alias = normalized) as)"

fun findInValues :: "js_builtins \<Rightarrow> jsstring \<Rightarrow> country list \<Rightarrow> country option" where
  "findInValues b normalized [] = None"
| "findInValues b normalized (c # cs) =
     (if normalizeName b (c_name c) = normalized then Some c
      else if aliasMatches b normalized c then Some c
      else findInValues b normalized cs)"

text \<open>\<^verbatim>\<open>findCountryByName\<close> (data.js, lines 55-77).\<close>

definition findCountryByName :: "js_builtins \<Rightarrow> jsstring \<Rightarrow> country_table option \<Rightarrow> country option" where
  "findCountryByName b nm countries =
     (case countries of None \<Rightarrow> None
      | Some tbl \<Rightarrow> findInValues b (normalizeName b nm) (map snd tbl))"

text \<open>\<^verbatim>\<open>getCountriesWithNeighbors\<close> (data.js, lines 82-89).\<close>

definition getCountriesWithNeighbors :: "country_table option \<Rightarrow> neighbor_table option \<Rightarrow> country list" where
  "getCountriesWithNeighbors countries nbrs =
     (case (nbrs, countries) of
        (Some nt, Some ct) \<Rightarrow>
          List.map_filter (\<lambda>(cd, ns). map_of ct cd) (filter (\<lambda>(cd, ns). length ns > 0) nt)
      | _ \<Rightarrow> [])"

text \<open>
  \<^verbatim>\<open>getRandomCountryWithNeighbors\<close> (data.js, lines 153-159). The argument \<open>rnd\<close> is the
  value of \<^verbatim>\<open>Math.floor(Math.random() * candidates.length)\<close>, which lies below
  \<^verbatim>\<open>candidates.length\<close>.
\<close>

definition getRandomCountryWithNeighbors :: "directory \<Rightarrow> nat \<Rightarrow> country option" where
  "getRandomCountryWithNeighbors d rnd =
     (let candidates = getCountriesWithNeighbors (Some (countriesData d)) (Some (neighborsData d))
      in if length candidates = 0 then None else Some (candidates ! rnd))"

subsection \<open>Autocomplete search\<close>

datatype match_type = NameMatch | AliasMatch

text \<open>An element of \<^verbatim>\<open>results\<close>: \<^verbatim>\<open>{ ...country, code, matchType }\<close>.\<close>

record search_result =
  r_code :: string
  r_name :: jsstring
  r_aliases :: "jsstring list option"
  matchType :: match_type

definition aliasIncludes :: "js_builtins \<Rightarrow> jsstring \<Rightarrow> country \<Rightarrow> bool" where
  "aliasIncludes b normalized c =
     (case c_aliases c of None \<Rightarrow> False
      | Some as \<Rightarrow> list_ex (\<lambda>alias. jsIncludes (normalizeName b alias) normalized) as)"

fun collectMatches :: "js_builtins \<Rightarrow> jsstring \<Rightarrow> string list \<Rightarrow> country_table \<Rightarrow> search_result list" where
  "collectMatches b normalized excludeCodes [] = []"
| "collectMatches b normalized excludeCodes ((cd, c) # rest) =
     (if cd \<in> set excludeCodes then collectMatches b normalized excludeCodes rest
      else if jsIncludes (normalizeName b (c_name c)) normalized then
        \<lparr> r_code = cd, r_name = c_name c, r_aliases = c_aliases c, matchType = NameMatch \<rparr>
          # collectMatches b normalized excludeCodes rest
      else if aliasIncludes b normalized c then
        \<lparr> r_code = cd, r_name = c_name c, r_aliases = c_aliases c, matchType = AliasMatch \<rparr>
          # collectMatches b normalized excludeCodes rest
      else collectMatches b normalized excludeCodes rest)"

text \<open>The comparator handed to \<^verbatim>\<open>results.sort\<close> (data.js, lines 121-132).\<close>

definition compareResults :: "js_builtins \<Rightarrow> jsstring \<Rightarrow> search_result \<Rightarrow> search_result \<Rightarrow> int" where
  "compareResults b normalized x y =
     (let aName = normalizeName b (r_name x);
          bName = normalizeName b (r_name y);
          aExact = (aName = normalized);
          bExact = (bName = normalized)
      in if aExact \<and> \<not> bExact then - 1
         else if \<not> aExact \<and> bExact then 1
         else int (length aName) - int (length bName))"

text \<open>
  \<^verbatim>\<open>Array.prototype.sort\<close> is a stable sort (ECMAScript 2019): with a consistent
  comparator it yields the stable ordering, which insertion from the right computes.
\<close>

fun insertSorted :: "('a \<Rightarrow> 'a \<Rightarrow> int) \<Rightarrow> 'a \<Rightarrow> 'a list \<Rightarrow> 'a list" where
  "insertSorted cmp x [] = [x]"
| "insertSorted cmp x (y # ys) =
     (if cmp x y \<le> 0 then x # y # ys else y # insertSorted cmp x ys)"

definition sortWith :: "('a \<Rightarrow> 'a \<Rightarrow> int) \<Rightarrow> 'a list \<Rightarrow> 'a list" where
  "sortWith cmp xs = foldr (insertSorted cmp) xs []"

text \<open>
  \<^verbatim>\<open>searchCountries\<close> (data.js, lines 94-135). The empty string is falsy, so the
  guard \<^verbatim>\<open>!query\<close> answers the empty query with the empty array.
\<close>

definition searchCountries ::
  "js_builtins \<Rightarrow> country_table option \<Rightarrow> jsstring \<Rightarrow> string list \<Rightarrow> search_result list" where
  "searchCountries b countries query excludeCodes =
     (case countries of None \<Rightarrow> []
      | Some tbl \<Rightarrow>
          if query = [] then []
          else let normalized = normalizeName b query
               in sortWith (compareResults b normalized)
                    (collectMatches b normalized excludeCodes tbl))"

section \<open>The round state machine (game.js)\<close>

text \<open>
  An element of \<^verbatim>\<open>this.guesses\<close>: \<^verbatim>\<open>{ code, name, correct }\<close>, with the extra property
  \<^verbatim>\<open>revealed: true\<close> on the guesses that \<^verbatim>\<open>submit\<close> synthesizes (absent, hence falsy,
  on all others).
\<close>

record guess =
  g_code :: string
  g_name :: jsstring
  g_correct :: bool
  g_revealed :: bool

text \<open>An element of \<^verbatim>\<open>this.neighborCountries\<close>: \<^verbatim>\<open>{ ...countries[code], code }\<close>.\<close>

record neighbor_country =
  n_code :: string
  n_name :: "jsstring option"
  n_aliases :: "jsstring list option"

text \<open>
  The fields of the class \<^verbatim>\<open>GameState\<close>. The three \<^verbatim>\<open>Set\<close>s are sets of codes, of
  which the code only uses \<^verbatim>\<open>has\<close>, \<^verbatim>\<open>add\<close> and \<^verbatim>\<open>size\<close>. The counters are
  JavaScript numbers that only ever hold small whole values: the gains, the losses and
  the round number count up from zero or one, the score is a signed sum of them.
\<close>

record GameState =
  targetCountry :: "country option"
  targetCountryCode :: "string option"
  neighbors :: "string list"
  neighborCountries :: "neighbor_country list"
  guesses :: "guess list"
  correctGuesses :: "string set"
  userCorrectGuesses :: "string set"
  incorrectGuesses :: "string set"
  submitted :: bool
  revealed :: bool
  score :: int
  lastRoundGains :: nat
  lastRoundLosses :: nat
  round :: nat

text \<open>
  The failures the code reports: the three \<^verbatim>\<open>{ success: false, error }\<close> results
  (\<^verbatim>\<open>'Country not found'\<close>, \<^verbatim>\<open>'Already guessed'\<close>, \<^verbatim>\<open>'No guesses to submit'\<close>) and the
  \<^verbatim>\<open>Error\<close> thrown by \<^verbatim>\<open>startNewRound\<close>.
\<close>

datatype game_error =
  CountryNotFound | AlreadyGuessed | NoGuessesToSubmit | NoCountriesAvailable

text \<open>\<^verbatim>\<open>reset\<close> (game.js, lines 12-27): the state the constructor leaves.\<close>

definition reset :: GameState where
  "reset = \<lparr> targetCountry = None, targetCountryCode = None, neighbors = [],
     neighborCountries = [], guesses = [], correctGuesses = {}, userCorrectGuesses = {},
     incorrectGuesses = {}, submitted = False, revealed = False, score = 0,
     lastRoundGains = 0, lastRoundLosses = 0, round = 1 \<rparr>"

definition toNeighborCountry :: "country_table \<Rightarrow> string \<Rightarrow> neighbor_country" where
  "toNeighborCountry countries cd =
     (case map_of countries cd of
        None \<Rightarrow> \<lparr> n_code = cd, n_name = None, n_aliases = None \<rparr>
      | Some c \<Rightarrow> \<lparr> n_code = cd, n_name = Some (c_name c), n_aliases = c_aliases c \<rparr>)"

text \<open>
  \<^verbatim>\<open>startNewRound\<close> (game.js, lines 32-57). The score and the round number survive;
  everything else is replaced.
\<close>

definition startNewRound :: "directory \<Rightarrow> nat \<Rightarrow> GameState \<Rightarrow> game_error + GameState" where
  "startNewRound d rnd s =
     (case getRandomCountryWithNeighbors d rnd of
        None \<Rightarrow> Inl NoCountriesAvailable
      | Some country \<Rightarrow>
          Inr (s\<lparr> targetCountry := Some country,
                  targetCountryCode := Some (c_code country),
                  neighbors := getNeighbors d (c_code country),
                  neighborCountries :=
                    map (toNeighborCountry (countriesData d)) (getNeighbors d (c_code country)),
                  guesses := [],
                  correctGuesses := {},
                  userCorrectGuesses := {},
                  incorrectGuesses := {},
                  submitted := False,
                  revealed := False,
                  lastRoundGains := 0,
                  lastRoundLosses := 0 \<rparr>))"

text \<open>
  \<^verbatim>\<open>addGuess\<close> (game.js, lines 62-85). The result is the failure, or the resolved
  country with \<^verbatim>\<open>isCorrect\<close>.
\<close>

definition addGuess ::
  "js_builtins \<Rightarrow> directory \<Rightarrow> jsstring \<Rightarrow> GameState \<Rightarrow> GameState \<times> (game_error + country \<times> bool)" where
  "addGuess b d countryName s =
     (case findCountryByName b countryName (Some (countriesData d)) of
        None \<Rightarrow> (s, Inl CountryNotFound)
      | Some country \<Rightarrow>
          if list_ex (\<lambda>g. g_code g = c_code country) (guesses s) then (s, Inl AlreadyGuessed)
          else
            let isCorrect = (c_code country \<in> set (neighbors s))
            in (s\<lparr> guesses := guesses s @
                      [\<lparr> g_code = c_code country, g_name = c_name country,
                         g_correct = isCorrect, g_revealed = False \<rparr>] \<rparr>,
                Inr (country, isCorrect)))"

text \<open>\<^verbatim>\<open>Array.prototype.findIndex\<close>, with \<open>None\<close> for \<^verbatim>\<open>-1\<close>.\<close>

fun findIndex :: "('a \<Rightarrow> bool) \<Rightarrow> 'a list \<Rightarrow> nat option" where
  "findIndex P [] = None"
| "findIndex P (x # xs) = (if P x then Some 0 else map_option Suc (findIndex P xs))"

text \<open>
  \<^verbatim>\<open>removeGuess\<close> (game.js, lines 90-97): \<^verbatim>\<open>splice(index, 1)\<close> at the first guess with
  the code.
\<close>

definition removeGuess :: "string \<Rightarrow> GameState \<Rightarrow> GameState \<times> bool" where
  "removeGuess countryCode s =
     (case findIndex (\<lambda>g. g_code g = countryCode) (guesses s) of
        Some index \<Rightarrow>
          (s\<lparr> guesses := take index (guesses s) @ drop (Suc index) (guesses s) \<rparr>, True)
      | None \<Rightarrow> (s, False))"

text \<open>The first loop of \<^verbatim>\<open>submit\<close> (lines 114-128), over the guesses.\<close>

fun processGuesses :: "guess list \<Rightarrow> GameState \<times> nat \<times> nat \<Rightarrow> GameState \<times> nat \<times> nat" where
  "processGuesses [] acc = acc"
| "processGuesses (g # gs) (s, gains, losses) =
     processGuesses gs
       (if g_correct g then
          (if g_code g \<notin> correctGuesses s then
             (s\<lparr> correctGuesses := insert (g_code g) (correctGuesses s),
                 userCorrectGuesses := insert (g_code g) (userCorrectGuesses s) \<rparr>,
              gains + 1, losses)
           else (s, gains, losses))
        else
          (if g_code g \<notin> incorrectGuesses s then
             (s\<lparr> incorrectGuesses := insert (g_code g) (incorrectGuesses s) \<rparr>,
              gains, losses + 1)
           else (s, gains, losses)))"

text \<open>
  The second loop of \<^verbatim>\<open>submit\<close> (lines 132-149), over the neighbors: it reads the
  guess list that it extends.
\<close>

fun revealMissing :: "country_table \<Rightarrow> string list \<Rightarrow> GameState \<times> nat \<Rightarrow> GameState \<times> nat" where
  "revealMissing countries [] acc = acc"
| "revealMissing countries (cd # cds) (s, losses) =
     revealMissing countries cds
       (if \<not> list_ex (\<lambda>g. g_code g = cd) (guesses s) then
          (let s1 = (case map_of countries cd of
                       Some country \<Rightarrow>
                         s\<lparr> guesses := guesses s @
                              [\<lparr> g_code = cd, g_name = c_name country,
                                 g_correct = True, g_revealed = True \<rparr>] \<rparr>
                     | None \<Rightarrow> s)
           in (s1\<lparr> correctGuesses := insert cd (correctGuesses s1) \<rparr>, losses + 1))
        else (s, losses))"

record submit_result =
  res_gains :: nat
  res_losses :: nat
  totalCorrect :: nat
  totalNeighbors :: nat
  isComplete :: bool

text \<open>\<^verbatim>\<open>submit\<close> (game.js, lines 102-164).\<close>

definition submit :: "directory \<Rightarrow> GameState \<Rightarrow> GameState \<times> (game_error + submit_result)" where
  "submit d s =
     (if length (guesses s) = 0 then (s, Inl NoGuessesToSubmit)
      else
        let s1 = s\<lparr> submitted := True, revealed := True \<rparr>;
            (s2, gains, losses0) = processGuesses (guesses s1) (s1, 0, 0);
            (s3, losses) = revealMissing (countriesData d) (neighbors s2) (s2, losses0);
            s4 = s3\<lparr> score := score s3 + (int gains - int losses),
                     lastRoundGains := gains, lastRoundLosses := losses \<rparr>
        in (s4, Inr \<lparr> res_gains = gains, res_losses = losses,
                      totalCorrect = card (correctGuesses s4),
                      totalNeighbors = length (neighbors s4),
                      isComplete = True \<rparr>))"

text \<open>\<^verbatim>\<open>reveal\<close> (game.js, lines 169-192).\<close>

fun revealAll :: "country_table \<Rightarrow> string list \<Rightarrow> GameState \<Rightarrow> GameState" where
  "revealAll countries [] s = s"
| "revealAll countries (cd # cds) s =
     revealAll countries cds
       (let s1 = (if \<not> list_ex (\<lambda>g. g_code g = cd) (guesses s) then
                    (case map_of countries cd of
                       Some country \<Rightarrow>
                         s\<lparr> guesses := guesses s @
                              [\<lparr> g_code = cd, g_name = c_name country,
                                 g_correct = True, g_revealed = False \<rparr>] \<rparr>
                     | None \<Rightarrow> s)
                  else s)
        in s1\<lparr> correctGuesses := insert cd (correctGuesses s1) \<rparr>)"

definition reveal :: "directory \<Rightarrow> GameState \<Rightarrow> GameState \<times> nat \<times> int" where
  "reveal d s =
     (let s1 = revealAll (countriesData d) (neighbors s) (s\<lparr> revealed := True \<rparr>)
      in (s1, length (neighbors s1),
          int (length (neighbors s1))
            - (int (card (correctGuesses s1)) - int (length (neighbors s1))
               + int (card (correctGuesses s1)))))"

text \<open>\<^verbatim>\<open>getState\<close> (game.js, lines 197-217).\<close>

record progress =
  found :: nat
  p_total :: nat

record state_snapshot =
  st_targetCountry :: "country option"
  st_targetCountryCode :: "string option"
  st_neighbors :: "neighbor_country list"
  neighborCount :: nat
  st_guesses :: "guess list"
  correctCount :: nat
  st_submitted :: bool
  st_revealed :: bool
  st_score :: int
  st_lastRoundGains :: nat
  st_lastRoundLosses :: nat
  st_round :: nat
  canSubmit :: bool
  st_progress :: progress

definition getState :: "GameState \<Rightarrow> state_snapshot" where
  "getState s = \<lparr> st_targetCountry = targetCountry s,
     st_targetCountryCode = targetCountryCode s,
     st_neighbors = neighborCountries s,
     neighborCount = length (neighbors s),
     st_guesses = guesses s,
     correctCount = card (correctGuesses s),
     st_submitted = submitted s,
     st_revealed = revealed s,
     st_score = score s,
     st_lastRoundGains = lastRoundGains s,
     st_lastRoundLosses = lastRoundLosses s,
     st_round = round s,
     canSubmit = (length (guesses s) > 0 \<and> \<not> revealed s),
     st_progress = \<lparr> found = card (userCorrectGuesses s), p_total = length (neighbors s) \<rparr> \<rparr>"

text \<open>\<^verbatim>\<open>nextRound\<close> (game.js, lines 243-246).\<close>

definition nextRound :: "directory \<Rightarrow> nat \<Rightarrow> GameState \<Rightarrow> game_error + GameState" where
  "nextRound d rnd s = startNewRound d rnd (s\<lparr> round := round s + 1 \<rparr>)"

text \<open>
  The lock that ui.js puts on a chip (lines 242-243): no remove button once the round is
  revealed, or once it is submitted and the guess is correct.
\<close>

definition isLocked :: "GameState \<Rightarrow> guess \<Rightarrow> bool" where
  "isLocked s g = (revealed s \<or> (submitted s \<and> g_correct g))"

text \<open>
  A round in the state Guessing: what \<^verbatim>\<open>startNewRound\<close> leaves, from any earlier state,
  followed by any number of \<^verbatim>\<open>addGuess\<close> and \<^verbatim>\<open>removeGuess\<close> calls. The index drawn by
  \<^verbatim>\<open>Math.random\<close> lies below the number of candidates.
\<close>

inductive guessing :: "js_builtins \<Rightarrow> directory \<Rightarrow> GameState \<Rightarrow> bool" for b d where
  g_start: "rnd < length (getCountriesWithNeighbors (Some (countriesData d)) (Some (neighborsData d)))
     \<Longrightarrow> startNewRound d rnd s0 = Inr s \<Longrightarrow> guessing b d s"
| g_add: "guessing b d s \<Longrightarrow> guessing b d (fst (addGuess b d nm s))"
| g_remove: "guessing b d s \<Longrightarrow> guessing b d (fst (removeGuess cd s))"

text \<open>Every state the public methods can produce from a fresh \<^verbatim>\<open>GameState\<close>.\<close>

inductive reachable :: "js_builtins \<Rightarrow> directory \<Rightarrow> GameState \<Rightarrow> bool" for b d where
  r_new: "reachable b d reset"
| r_start: "reachable b d s0
     \<Longrightarrow> rnd < length (getCountriesWithNeighbors (Some (countriesData d)) (Some (neighborsData d)))
     \<Longrightarrow> startNewRound d rnd s0 = Inr s \<Longrightarrow> reachable b d s"
| r_next: "reachable b d s0
     \<Longrightarrow> rnd < length (getCountriesWithNeighbors (Some (countriesData d)) (Some (neighborsData d)))
     \<Longrightarrow> nextRound d rnd s0 = Inr s \<Longrightarrow> reachable b d s"
| r_add: "reachable b d s \<Longrightarrow> reachable b d (fst (addGuess b d nm s))"
| r_remove: "reachable b d s \<Longrightarrow> reachable b d (fst (removeGuess cd s))"
| r_submit: "reachable b d s \<Longrightarrow> reachable b d (fst (submit d s))"
| r_reveal: "reachable b d s \<Longrightarrow> reachable b d (fst (reveal d s))"

section \<open>Vocabulary of the properties\<close>

text \<open>
  The codes that have a guess, the codes of the correct and of the incorrect guesses, and
  the codes of the answer set that have no guess.
\<close>

definition guessCodes :: "guess list \<Rightarrow> string set" where
  "guessCodes gs = g_code ` set gs"

definition correctCodes :: "guess list \<Rightarrow> string set" where
  "correctCodes gs = g_code ` {g \<in> set gs. g_correct g}"

definition incorrectCodes :: "guess list \<Rightarrow> string set" where
  "incorrectCodes gs = g_code ` {g \<in> set gs. \<not> g_correct g}"

definition missedNeighbors :: "GameState \<Rightarrow> string set" where
  "missedNeighbors s = {cd \<in> set (neighbors s). cd \<notin> guessCodes (guesses s)}"

text \<open>
  The states that the public methods reach from a fresh \<^verbatim>\<open>GameState\<close>, together with
  the codes of the guesses that \<^verbatim>\<open>addGuess\<close> accepted since the current round began, and
  what every such state satisfies.
\<close>

inductive played :: "js_builtins \<Rightarrow> directory \<Rightarrow> string list \<Rightarrow> GameState \<Rightarrow> bool"
  for b d where
  p_new: "played b d [] reset"
| p_start: "played b d issued0 s0
     \<Longrightarrow> rnd < length (getCountriesWithNeighbors (Some (countriesData d)) (Some (neighborsData d)))
     \<Longrightarrow> startNewRound d rnd s0 = Inr s \<Longrightarrow> played b d [] s"
| p_next: "played b d issued0 s0
     \<Longrightarrow> rnd < length (getCountriesWithNeighbors (Some (countriesData d)) (Some (neighborsData d)))
     \<Longrightarrow> nextRound d rnd s0 = Inr s \<Longrightarrow> played b d [] s"
| p_add: "played b d issued s \<Longrightarrow> addGuess b d nm s = (s', Inr (c, ok))
     \<Longrightarrow> played b d (issued @ [c_code c]) s'"
| p_add_failed: "played b d issued s \<Longrightarrow> addGuess b d nm s = (s', Inl e)
     \<Longrightarrow> played b d issued s'"
| p_remove: "played b d issued s \<Longrightarrow> played b d issued (fst (removeGuess cd s))"
| p_submit: "played b d issued s \<Longrightarrow> played b d issued (fst (submit d s))"
| p_reveal: "played b d issued s \<Longrightarrow> played b d issued (fst (reveal d s))"

definition roundInvariant :: "string list \<Rightarrow> GameState \<Rightarrow> bool" where
  "roundInvariant issued s =
     (userCorrectGuesses s \<subseteq> set issued
      \<and> userCorrectGuesses s \<subseteq> correctGuesses s
      \<and> correctGuesses s \<subseteq> set (neighbors s)
      \<and> (\<forall>g \<in> set (guesses s). g_correct g \<longrightarrow> g_code g \<in> set (neighbors s))
      \<and> (\<forall>g \<in> set (guesses s). g_code g \<in> set issued \<or> g_code g \<in> correctGuesses s)
      \<and> (\<forall>g \<in> set (guesses s). g_revealed g \<longrightarrow> g_code g \<in> correctGuesses s))"


text \<open>
  What the search is meant to return: the countries whose normalised name or some
  normalised alias contains the normalised query, ranked by exactness and then by the
  length of the normalised name.
\<close>

definition matchesQuery :: "js_builtins \<Rightarrow> jsstring \<Rightarrow> country \<Rightarrow> bool" where
  "matchesQuery b normalized c =
     (jsIncludes (normalizeName b (c_name c)) normalized
      \<or> (\<exists>as. c_aliases c = Some as \<and> (\<exists>alias \<in> set as. jsIncludes (normalizeName b alias) normalized)))"

definition isExactMatch :: "js_builtins \<Rightarrow> jsstring \<Rightarrow> search_result \<Rightarrow> bool" where
  "isExactMatch b normalized r = (normalizeName b (r_name r) = normalized)"

definition rankedBefore :: "js_builtins \<Rightarrow> jsstring \<Rightarrow> search_result \<Rightarrow> search_result \<Rightarrow> bool" where
  "rankedBefore b normalized x y =
     ((isExactMatch b normalized x \<and> \<not> isExactMatch b normalized y)
      \<or> (isExactMatch b normalized x = isExactMatch b normalized y
          \<and> length (normalizeName b (r_name x)) \<le> length (normalizeName b (r_name y))))"

text \<open>The element that \<^verbatim>\<open>searchCountries\<close> pushes for a matching table entry.\<close>

definition toResult :: "js_builtins \<Rightarrow> jsstring \<Rightarrow> string \<times> country \<Rightarrow> search_result" where
  "toResult b normalized e =
     \<lparr> r_code = fst e, r_name = c_name (snd e), r_aliases = c_aliases (snd e),
       matchType = (if jsIncludes (normalizeName b (c_name (snd e))) normalized
                    then NameMatch else AliasMatch) \<rparr>"


definition coteAccented :: jsstring where
  "coteAccented = [67, 244, 116, 101, 32, 100, 39, 73, 118, 111, 105, 114, 101]"




section \<open>An example directory\<close>

text \<open>
  Five countries with France adjacent to Spain and Germany, the round on France, the
  same round after the guess Spain, and after \<^verbatim>\<open>submit\<close>. A second directory lists a
  neighbor that the country table lacks; a third table holds two names with
  punctuation.
\<close>

definition france :: country where
  "france = \<lparr> c_code = ''FRA'', c_name = ustr ''France'', c_aliases = Some [] \<rparr>"

definition spain :: country where
  "spain = \<lparr> c_code = ''ESP'', c_name = ustr ''Spain'', c_aliases = Some [ustr ''Espana''] \<rparr>"

definition germany :: country where
  "germany = \<lparr> c_code = ''DEU'', c_name = ustr ''Germany'', c_aliases = Some [ustr ''Deutschland''] \<rparr>"

definition ivoryCoast :: country where
  "ivoryCoast = \<lparr> c_code = ''CIV'', c_name = coteAccented, c_aliases = Some [ustr ''Ivory Coast''] \<rparr>"

definition iceland :: country where
  "iceland = \<lparr> c_code = ''ISL'', c_name = ustr ''Iceland'', c_aliases = None \<rparr>"

definition demoCountries :: country_table where
  "demoCountries = [(''FRA'', france), (''ESP'', spain), (''DEU'', germany), (''CIV'', ivoryCoast), (''ISL'', iceland)]"

definition demoNeighbors :: neighbor_table where
  "demoNeighbors = [(''FRA'', [''ESP'', ''DEU'']), (''ESP'', [''FRA'']), (''DEU'', [''FRA'']), (''CIV'', []), (''ISL'', [])]"

definition demo :: directory where
  "demo = \<lparr> countriesData = demoCountries, neighborsData = demoNeighbors \<rparr>"

definition demoStart :: GameState where
  "demoStart = \<lparr> targetCountry = Some france, targetCountryCode = Some ''FRA'',
     neighbors = [''ESP'', ''DEU''],
     neighborCountries =
       [\<lparr> n_code = ''ESP'', n_name = Some (ustr ''Spain''), n_aliases = Some [ustr ''Espana''] \<rparr>,
        \<lparr> n_code = ''DEU'', n_name = Some (ustr ''Germany''), n_aliases = Some [ustr ''Deutschland''] \<rparr>],
     guesses = [], correctGuesses = {}, userCorrectGuesses = {},
     incorrectGuesses = {}, submitted = False, revealed = False, score = 0,
     lastRoundGains = 0, lastRoundLosses = 0, round = 1 \<rparr>"

definition spainGuess :: guess where
  "spainGuess = \<lparr> g_code = ''ESP'', g_name = ustr ''Spain'', g_correct = True, g_revealed = False \<rparr>"

definition germanyRevealed :: guess where
  "germanyRevealed = \<lparr> g_code = ''DEU'', g_name = ustr ''Germany'', g_correct = True, g_revealed = True \<rparr>"

definition demoGuessed :: GameState where
  "demoGuessed = demoStart\<lparr> guesses := [spainGuess] \<rparr>"

definition demoFinal :: GameState where
  "demoFinal = demoStart\<lparr> guesses := [spainGuess, germanyRevealed],
     correctGuesses := {''ESP'', ''DEU''}, userCorrectGuesses := {''ESP''},
     submitted := True, revealed := True, score := 0, lastRoundGains := 1, lastRoundLosses := 1 \<rparr>"

definition icelandGuess :: guess where
  "icelandGuess = \<lparr> g_code = ''ISL'', g_name = ustr ''Iceland'', g_correct = False, g_revealed = False \<rparr>"

definition gapDirectory :: directory where
  "gapDirectory = \<lparr> countriesData = [(''FRA'', france), (''ESP'', spain)],
     neighborsData = [(''FRA'', [''ESP'', ''AND'']), (''ESP'', [''FRA''])] \<rparr>"

definition gapStart :: GameState where
  "gapStart = \<lparr> targetCountry = Some france, targetCountryCode = Some ''FRA'',
     neighbors = [''ESP'', ''AND''],
     neighborCountries =
       [\<lparr> n_code = ''ESP'', n_name = Some (ustr ''Spain''), n_aliases = Some [ustr ''Espana''] \<rparr>,
        \<lparr> n_code = ''AND'', n_name = None, n_aliases = None \<rparr>],
     guesses = [], correctGuesses = {}, userCorrectGuesses = {},
     incorrectGuesses = {}, submitted = False, revealed = False, score = 0,
     lastRoundGains = 0, lastRoundLosses = 0, round = 1 \<rparr>"

definition gapGuessed :: GameState where
  "gapGuessed = gapStart\<lparr> guesses := [spainGuess] \<rparr>"

definition gapFinal :: GameState where
  "gapFinal = gapStart\<lparr> guesses := [spainGuess],
     correctGuesses := {''ESP'', ''AND''}, userCorrectGuesses := {''ESP''},
     submitted := True, revealed := True, score := 0, lastRoundGains := 1, lastRoundLosses := 1 \<rparr>"

definition congo :: country where
  "congo = \<lparr> c_code = ''COD'', c_name = ustr ''Dem. Rep. Congo'', c_aliases = Some [] \<rparr>"

definition czechia :: country where
  "czechia = \<lparr> c_code = ''CZE'', c_name = ustr ''Czech Republic'', c_aliases = Some [] \<rparr>"

definition orderTable :: country_table where
  "orderTable = [(''CZE'', czechia), (''COD'', congo)]"

text \<open>
  The round on France with both neighbors guessed, submitted, the guess Spain removed,
  and submitted again. A fourth directory lists one neighbor code twice, which the
  country table lacks.
\<close>

definition germanyGuess :: guess where
  "germanyGuess = \<lparr> g_code = ''DEU'', g_name = ustr ''Germany'', g_correct = True, g_revealed = False \<rparr>"

definition spainRevealed :: guess where
  "spainRevealed = \<lparr> g_code = ''ESP'', g_name = ustr ''Spain'', g_correct = True, g_revealed = True \<rparr>"

definition demoBoth :: GameState where
  "demoBoth = demoStart\<lparr> guesses := [spainGuess, germanyGuess] \<rparr>"

definition demoBothFinal :: GameState where
  "demoBothFinal = demoStart\<lparr> guesses := [spainGuess, germanyGuess],
     correctGuesses := {''ESP'', ''DEU''}, userCorrectGuesses := {''ESP'', ''DEU''},
     submitted := True, revealed := True, score := 2, lastRoundGains := 2, lastRoundLosses := 0 \<rparr>"

definition demoRemoved :: GameState where
  "demoRemoved = demoBothFinal\<lparr> guesses := [germanyGuess] \<rparr>"

definition demoResubmitted :: GameState where
  "demoResubmitted = demoBothFinal\<lparr> guesses := [germanyGuess, spainRevealed],
     score := 1, lastRoundGains := 0, lastRoundLosses := 1 \<rparr>"





section \<open>The two passes of submit\<close>

lemma list_ex_code: "list_ex (\<lambda>g. g_code g = cd) gs \<longleftrightarrow> cd \<in> guessCodes gs"
  by (auto simp: list_ex_iff guessCodes_def)

lemma finite_codes [simp]: "finite (guessCodes gs)" "finite (correctCodes gs)" "finite (incorrectCodes gs)"
  by (simp_all add: guessCodes_def correctCodes_def incorrectCodes_def)

lemma correctCodes_Cons:
  "correctCodes (g # gs) = (if g_correct g then insert (g_code g) (correctCodes gs) else correctCodes gs)"
  by (auto simp: correctCodes_def)

lemma incorrectCodes_Cons:
  "incorrectCodes (g # gs) = (if g_correct g then incorrectCodes gs else insert (g_code g) (incorrectCodes gs))"
  by (auto simp: incorrectCodes_def)

lemma card_insert_diff:
  assumes "finite A" "x \<notin> B"
  shows "card (insert x A - B) = Suc (card (A - insert x B))"
proof -
  have "insert x A - B = insert x (A - insert x B)" using assms by auto
  moreover have "x \<notin> A - insert x B" by simp
  ultimately show ?thesis using assms by simp
qed

lemma processGuesses_frame:
  "processGuesses gs (s, gains, losses) = (s', gains', losses') \<Longrightarrow>
     guesses s' = guesses s \<and> neighbors s' = neighbors s \<and> score s' = score s
     \<and> submitted s' = submitted s \<and> revealed s' = revealed s \<and> round s' = round s
     \<and> targetCountry s' = targetCountry s \<and> targetCountryCode s' = targetCountryCode s
     \<and> neighborCountries s' = neighborCountries s"
  by (induction gs arbitrary: s gains losses) (auto split: if_splits)

lemma processGuesses_sets:
  "processGuesses gs (s, gains, losses) = (s', gains', losses') \<Longrightarrow>
     correctGuesses s' = correctGuesses s \<union> correctCodes gs
     \<and> userCorrectGuesses s' = userCorrectGuesses s \<union> (correctCodes gs - correctGuesses s)
     \<and> incorrectGuesses s' = incorrectGuesses s \<union> incorrectCodes gs"
proof (induction gs arbitrary: s gains losses)
  case Nil
  then show ?case by (simp add: correctCodes_def incorrectCodes_def)
next
  case (Cons g gs)
  show ?case
    using Cons.prems
    by (auto simp: correctCodes_Cons incorrectCodes_Cons split: if_splits dest!: Cons.IH)
qed

lemma processGuesses_counts:
  "processGuesses gs (s, gains, losses) = (s', gains', losses') \<Longrightarrow>
     gains' = gains + card (correctCodes gs - correctGuesses s)
     \<and> losses' = losses + card (incorrectCodes gs - incorrectGuesses s)"
proof (induction gs arbitrary: s gains losses)
  case Nil
  then show ?case by (simp add: correctCodes_def incorrectCodes_def)
next
  case (Cons g gs)
  show ?case
  proof (cases "g_correct g")
    case True
    show ?thesis
    proof (cases "g_code g \<in> correctGuesses s")
      case True
      with \<open>g_correct g\<close> Cons.prems have "processGuesses gs (s, gains, losses) = (s', gains', losses')"
        by simp
      from Cons.IH[OF this] True \<open>g_correct g\<close> show ?thesis
        by (simp add: correctCodes_Cons incorrectCodes_Cons insert_Diff_if)
    next
      case False
      with \<open>g_correct g\<close> Cons.prems have
        "processGuesses gs (s\<lparr> correctGuesses := insert (g_code g) (correctGuesses s),
           userCorrectGuesses := insert (g_code g) (userCorrectGuesses s) \<rparr>, gains + 1, losses)
         = (s', gains', losses')"
        by simp
      from Cons.IH[OF this] False \<open>g_correct g\<close> show ?thesis
        by (simp add: correctCodes_Cons incorrectCodes_Cons card_insert_diff)
    qed
  next
    case wrong: False
    show ?thesis
    proof (cases "g_code g \<in> incorrectGuesses s")
      case True
      with wrong Cons.prems have "processGuesses gs (s, gains, losses) = (s', gains', losses')"
        by simp
      from Cons.IH[OF this] True wrong show ?thesis
        by (simp add: correctCodes_Cons incorrectCodes_Cons insert_Diff_if)
    next
      case False
      with wrong Cons.prems have
        "processGuesses gs (s\<lparr> incorrectGuesses := insert (g_code g) (incorrectGuesses s) \<rparr>,
           gains, losses + 1) = (s', gains', losses')"
        by simp
      from Cons.IH[OF this] False wrong show ?thesis
        by (simp add: correctCodes_Cons incorrectCodes_Cons card_insert_diff)
    qed
  qed
qed

lemma guessCodes_append [simp]: "guessCodes (gs @ hs) = guessCodes gs \<union> guessCodes hs"
  by (auto simp: guessCodes_def)

lemma guessCodes_single [simp]: "guessCodes [g] = {g_code g}"
  by (simp add: guessCodes_def)

lemma revealMissing_has:
  "cd \<in> guessCodes (guesses s) \<Longrightarrow>
     revealMissing ct (cd # cds) (s, losses) = revealMissing ct cds (s, losses)"
  by (simp add: list_ex_code)

lemma revealMissing_unknown:
  "cd \<notin> guessCodes (guesses s) \<Longrightarrow> map_of ct cd = None \<Longrightarrow>
     revealMissing ct (cd # cds) (s, losses) =
       revealMissing ct cds (s\<lparr> correctGuesses := insert cd (correctGuesses s) \<rparr>, losses + 1)"
  by (simp add: list_ex_code)

lemma revealMissing_push:
  "cd \<notin> guessCodes (guesses s) \<Longrightarrow> map_of ct cd = Some country \<Longrightarrow>
     revealMissing ct (cd # cds) (s, losses) =
       revealMissing ct cds
         (s\<lparr> guesses := guesses s @
               [\<lparr> g_code = cd, g_name = c_name country, g_correct = True, g_revealed = True \<rparr>],
             correctGuesses := insert cd (correctGuesses s) \<rparr>, losses + 1)"
  by (simp add: list_ex_code)

lemma revealMissing_frame:
  "revealMissing ct cds (s, losses) = (s', losses') \<Longrightarrow>
     neighbors s' = neighbors s \<and> score s' = score s
     \<and> submitted s' = submitted s \<and> revealed s' = revealed s \<and> round s' = round s
     \<and> userCorrectGuesses s' = userCorrectGuesses s \<and> incorrectGuesses s' = incorrectGuesses s"
proof (induction cds arbitrary: s losses)
  case Nil
  then show ?case by simp
next
  case (Cons cd cds)
  show ?case
  proof (cases "cd \<in> guessCodes (guesses s)")
    case True
    from Cons.IH[OF Cons.prems[unfolded revealMissing_has[OF True]]] show ?thesis .
  next
    case False
    show ?thesis
    proof (cases "map_of ct cd")
      case None
      from Cons.IH[OF Cons.prems[unfolded revealMissing_unknown[OF False None]]]
      show ?thesis by simp
    next
      case (Some country)
      from Cons.IH[OF Cons.prems[unfolded revealMissing_push[OF False Some]]]
      show ?thesis by simp
    qed
  qed
qed

lemma revealMissing_correct:
  "revealMissing ct cds (s, losses) = (s', losses') \<Longrightarrow>
     correctGuesses s' = correctGuesses s \<union> {cd \<in> set cds. cd \<notin> guessCodes (guesses s)}"
proof (induction cds arbitrary: s losses)
  case Nil
  then show ?case by simp
next
  case (Cons cd cds)
  show ?case
  proof (cases "cd \<in> guessCodes (guesses s)")
    case True
    from Cons.IH[OF Cons.prems[unfolded revealMissing_has[OF True]]] True
    show ?thesis by auto
  next
    case False
    show ?thesis
    proof (cases "map_of ct cd")
      case None
      from Cons.IH[OF Cons.prems[unfolded revealMissing_unknown[OF False None]]] False
      show ?thesis by auto
    next
      case (Some country)
      from Cons.IH[OF Cons.prems[unfolded revealMissing_push[OF False Some]]] False
      show ?thesis by auto
    qed
  qed
qed

lemma revealMissing_codes:
  "revealMissing ct cds (s, losses) = (s', losses') \<Longrightarrow>
     guessCodes (guesses s') =
       guessCodes (guesses s) \<union> {cd \<in> set cds. cd \<notin> guessCodes (guesses s) \<and> map_of ct cd \<noteq> None}"
proof (induction cds arbitrary: s losses)
  case Nil
  then show ?case by simp
next
  case (Cons cd cds)
  let ?G = "guessCodes (guesses s)"
  show ?case
  proof (cases "cd \<in> ?G")
    case True
    from Cons.IH[OF Cons.prems[unfolded revealMissing_has[OF True]]]
    have "guessCodes (guesses s') = ?G \<union> {c \<in> set cds. c \<notin> ?G \<and> map_of ct c \<noteq> None}" .
    moreover have "{c \<in> set (cd # cds). c \<notin> ?G \<and> map_of ct c \<noteq> None}
        = {c \<in> set cds. c \<notin> ?G \<and> map_of ct c \<noteq> None}"
      using True by auto
    ultimately show ?thesis by simp
  next
    case False
    show ?thesis
    proof (cases "map_of ct cd")
      case None
      from Cons.IH[OF Cons.prems[unfolded revealMissing_unknown[OF False None]]]
      have "guessCodes (guesses s') = ?G \<union> {c \<in> set cds. c \<notin> ?G \<and> map_of ct c \<noteq> None}"
        by simp
      moreover have "{c \<in> set (cd # cds). c \<notin> ?G \<and> map_of ct c \<noteq> None}
          = {c \<in> set cds. c \<notin> ?G \<and> map_of ct c \<noteq> None}"
        using None by auto
      ultimately show ?thesis by simp
    next
      case (Some country)
      from Cons.IH[OF Cons.prems[unfolded revealMissing_push[OF False Some]]]
      have "guessCodes (guesses s') =
          (?G \<union> {cd}) \<union> {c \<in> set cds. c \<notin> ?G \<union> {cd} \<and> map_of ct c \<noteq> None}"
        by simp
      moreover have "(?G \<union> {cd}) \<union> {c \<in> set cds. c \<notin> ?G \<union> {cd} \<and> map_of ct c \<noteq> None}
          = ?G \<union> {c \<in> set (cd # cds). c \<notin> ?G \<and> map_of ct c \<noteq> None}"
        using False Some by auto
      ultimately show ?thesis by simp
    qed
  qed
qed

lemma revealMissing_guesses:
  "revealMissing ct cds (s, losses) = (s', losses') \<Longrightarrow>
     \<exists>ext. guesses s' = guesses s @ ext
       \<and> (\<forall>g \<in> set ext. g_correct g \<and> g_revealed g \<and> g_code g \<in> set cds
             \<and> g_code g \<notin> guessCodes (guesses s))"
proof (induction cds arbitrary: s losses)
  case Nil
  then show ?case by simp
next
  case (Cons cd cds)
  show ?case
  proof (cases "cd \<in> guessCodes (guesses s)")
    case True
    with Cons.prems have "revealMissing ct cds (s, losses) = (s', losses')"
      by (simp add: list_ex_code)
    from Cons.IH[OF this] show ?thesis by auto
  next
    case False
    show ?thesis
    proof (cases "map_of ct cd")
      case None
      with False Cons.prems have
        "revealMissing ct cds (s\<lparr> correctGuesses := insert cd (correctGuesses s) \<rparr>, losses + 1)
           = (s', losses')"
        by (simp add: list_ex_code)
      from Cons.IH[OF this] show ?thesis by auto
    next
      case (Some country)
      let ?g = "\<lparr> g_code = cd, g_name = c_name country, g_correct = True, g_revealed = True \<rparr>"
      from Some False Cons.prems have
        "revealMissing ct cds (s\<lparr> guesses := guesses s @ [?g],
            correctGuesses := insert cd (correctGuesses s) \<rparr>, losses + 1) = (s', losses')"
        by (simp add: list_ex_code)
      from Cons.IH[OF this] obtain ext where
        e: "guesses s' = (guesses s @ [?g]) @ ext"
        and p: "\<forall>g \<in> set ext. g_correct g \<and> g_revealed g \<and> g_code g \<in> set cds
                 \<and> g_code g \<notin> guessCodes (guesses s @ [?g])"
        by auto
      have "guesses s' = guesses s @ (?g # ext)" using e by simp
      moreover have "\<forall>g \<in> set (?g # ext). g_correct g \<and> g_revealed g \<and> g_code g \<in> set (cd # cds)
             \<and> g_code g \<notin> guessCodes (guesses s)"
        using p False by auto
      ultimately show ?thesis by blast
    qed
  qed
qed

lemma revealMissing_distinct:
  "revealMissing ct cds (s, losses) = (s', losses') \<Longrightarrow> distinct (map g_code (guesses s))
     \<Longrightarrow> distinct (map g_code (guesses s'))"
proof (induction cds arbitrary: s losses)
  case Nil
  then show ?case by simp
next
  case (Cons cd cds)
  show ?case
  proof (cases "cd \<in> guessCodes (guesses s)")
    case True
    from Cons.IH[OF Cons.prems(1)[unfolded revealMissing_has[OF True]] Cons.prems(2)]
    show ?thesis .
  next
    case False
    show ?thesis
    proof (cases "map_of ct cd")
      case None
      from Cons.IH[OF Cons.prems(1)[unfolded revealMissing_unknown[OF False None]]] Cons.prems(2)
      show ?thesis by simp
    next
      case (Some country)
      from Cons.IH[OF Cons.prems(1)[unfolded revealMissing_push[OF False Some]]] Cons.prems(2) False
      show ?thesis by (simp add: guessCodes_def)
    qed
  qed
qed

lemma revealMissing_losses:
  "revealMissing ct cds (s, losses) = (s', losses') \<Longrightarrow>
     distinct cds \<or> set cds \<subseteq> fst ` set ct \<Longrightarrow>
     losses' = losses + card {cd \<in> set cds. cd \<notin> guessCodes (guesses s)}"
proof (induction cds arbitrary: s losses)
  case Nil
  then show ?case by simp
next
  case (Cons cd cds)
  have tail: "distinct cds \<or> set cds \<subseteq> fst ` set ct" using Cons.prems(2) by auto
  show ?case
  proof (cases "cd \<in> guessCodes (guesses s)")
    case True
    with Cons.prems have "revealMissing ct cds (s, losses) = (s', losses')"
      by (simp add: list_ex_code)
    from Cons.IH[OF this tail] have "losses' = losses + card {c \<in> set cds. c \<notin> guessCodes (guesses s)}" .
    moreover have "{c \<in> set (cd # cds). c \<notin> guessCodes (guesses s)} = {c \<in> set cds. c \<notin> guessCodes (guesses s)}"
      using True by auto
    ultimately show ?thesis by simp
  next
    case False
    let ?M = "{c \<in> set cds. c \<notin> guessCodes (guesses s)}"
    have fin: "finite ?M" by simp
    have split: "{c \<in> set (cd # cds). c \<notin> guessCodes (guesses s)} = insert cd (?M - {cd})"
      using False by auto
    have cardM: "card (insert cd (?M - {cd})) = Suc (card (?M - {cd}))"
      by (rule card_insert_disjoint) (use fin in auto)
    show ?thesis
    proof (cases "map_of ct cd")
      case None
      then have "cd \<notin> fst ` set ct" by (simp add: map_of_eq_None_iff)
      with Cons.prems(2) have dist: "distinct (cd # cds)" by auto
      then have notin: "cd \<notin> set cds" by simp
      from None False Cons.prems have
        "revealMissing ct cds (s\<lparr> correctGuesses := insert cd (correctGuesses s) \<rparr>, losses + 1)
           = (s', losses')"
        by (simp add: list_ex_code)
      from Cons.IH[OF this tail] have "losses' = losses + 1 + card ?M" by simp
      moreover have "?M - {cd} = ?M" using notin by auto
      ultimately show ?thesis using split cardM by simp
    next
      case (Some country)
      let ?g = "\<lparr> g_code = cd, g_name = c_name country, g_correct = True, g_revealed = True \<rparr>"
      from Some False Cons.prems have
        "revealMissing ct cds (s\<lparr> guesses := guesses s @ [?g],
            correctGuesses := insert cd (correctGuesses s) \<rparr>, losses + 1) = (s', losses')"
        by (simp add: list_ex_code)
      from Cons.IH[OF this tail] have
        "losses' = losses + 1 + card {c \<in> set cds. c \<notin> guessCodes (guesses s @ [?g])}" by simp
      moreover have "{c \<in> set cds. c \<notin> guessCodes (guesses s @ [?g])} = ?M - {cd}" by auto
      ultimately show ?thesis using split cardM by simp
    qed
  qed
qed

section \<open>The effect of submit\<close>

lemma submit_cases:
  assumes "guesses s \<noteq> []"
  obtains s2 gains l0 s3 losses where
    "processGuesses (guesses s) (s\<lparr> submitted := True, revealed := True \<rparr>, 0, 0) = (s2, gains, l0)"
    and "revealMissing (countriesData d) (neighbors s) (s2, l0) = (s3, losses)"
    and "submit d s =
      (s3\<lparr> score := score s + (int gains - int losses),
           lastRoundGains := gains, lastRoundLosses := losses \<rparr>,
       Inr \<lparr> res_gains = gains, res_losses = losses, totalCorrect = card (correctGuesses s3),
             totalNeighbors = length (neighbors s), isComplete = True \<rparr>)"
proof -
  obtain s2 gains l0 where
    pg: "processGuesses (guesses s) (s\<lparr> submitted := True, revealed := True \<rparr>, 0, 0) = (s2, gains, l0)"
    by (cases "processGuesses (guesses s) (s\<lparr> submitted := True, revealed := True \<rparr>, 0, 0)") auto
  have n2: "neighbors s2 = neighbors s" using processGuesses_frame[OF pg] by simp
  have sc2: "score s2 = score s" using processGuesses_frame[OF pg] by simp
  obtain s3 losses where
    rm: "revealMissing (countriesData d) (neighbors s) (s2, l0) = (s3, losses)"
    by (cases "revealMissing (countriesData d) (neighbors s) (s2, l0)") auto
  have n3: "neighbors s3 = neighbors s" using revealMissing_frame[OF rm] n2 by simp
  have sc3: "score s3 = score s" using revealMissing_frame[OF rm] sc2 by simp
  have "submit d s =
      (s3\<lparr> score := score s + (int gains - int losses),
           lastRoundGains := gains, lastRoundLosses := losses \<rparr>,
       Inr \<lparr> res_gains = gains, res_losses = losses, totalCorrect = card (correctGuesses s3),
             totalNeighbors = length (neighbors s), isComplete = True \<rparr>)"
    using assms pg rm n2 n3 sc3 by (simp add: submit_def)
  with pg rm show ?thesis using that by blast
qed

lemma submit_empty: "guesses s = [] \<Longrightarrow> submit d s = (s, Inl NoGuessesToSubmit)"
  by (simp add: submit_def)

lemma submit_frame:
  assumes "guesses s \<noteq> []"
  shows "neighbors (fst (submit d s)) = neighbors s"
    and "submitted (fst (submit d s))" and "revealed (fst (submit d s))"
    and "round (fst (submit d s)) = round s"
proof -
  from assms obtain s2 gains l0 s3 losses where
    pg: "processGuesses (guesses s) (s\<lparr> submitted := True, revealed := True \<rparr>, 0, 0) = (s2, gains, l0)"
    and rm: "revealMissing (countriesData d) (neighbors s) (s2, l0) = (s3, losses)"
    and sub: "submit d s =
      (s3\<lparr> score := score s + (int gains - int losses),
           lastRoundGains := gains, lastRoundLosses := losses \<rparr>,
       Inr \<lparr> res_gains = gains, res_losses = losses, totalCorrect = card (correctGuesses s3),
             totalNeighbors = length (neighbors s), isComplete = True \<rparr>)"
    by (rule submit_cases)
  note f2 = processGuesses_frame[OF pg] and f3 = revealMissing_frame[OF rm]
  show "neighbors (fst (submit d s)) = neighbors s" using f2 f3 sub by simp
  show "submitted (fst (submit d s))" using f2 f3 sub by simp
  show "revealed (fst (submit d s))" using f2 f3 sub by simp
  show "round (fst (submit d s)) = round s" using f2 f3 sub by simp
qed

lemma submit_sets:
  assumes "guesses s \<noteq> []"
  shows "correctGuesses (fst (submit d s)) =
           correctGuesses s \<union> correctCodes (guesses s) \<union> missedNeighbors s"
    and "userCorrectGuesses (fst (submit d s)) =
           userCorrectGuesses s \<union> (correctCodes (guesses s) - correctGuesses s)"
    and "incorrectGuesses (fst (submit d s)) = incorrectGuesses s \<union> incorrectCodes (guesses s)"
proof -
  from assms obtain s2 gains l0 s3 losses where
    pg: "processGuesses (guesses s) (s\<lparr> submitted := True, revealed := True \<rparr>, 0, 0) = (s2, gains, l0)"
    and rm: "revealMissing (countriesData d) (neighbors s) (s2, l0) = (s3, losses)"
    and sub: "submit d s =
      (s3\<lparr> score := score s + (int gains - int losses),
           lastRoundGains := gains, lastRoundLosses := losses \<rparr>,
       Inr \<lparr> res_gains = gains, res_losses = losses, totalCorrect = card (correctGuesses s3),
             totalNeighbors = length (neighbors s), isComplete = True \<rparr>)"
    by (rule submit_cases)
  note f2 = processGuesses_frame[OF pg] and f3 = revealMissing_frame[OF rm]
  have g2: "guesses s2 = guesses s" using f2 by simp
  note p = processGuesses_sets[OF pg]
  have c3: "correctGuesses s3 = correctGuesses s2 \<union> missedNeighbors s"
    using revealMissing_correct[OF rm] g2 by (simp add: missedNeighbors_def)
  show "correctGuesses (fst (submit d s)) =
           correctGuesses s \<union> correctCodes (guesses s) \<union> missedNeighbors s"
    using sub c3 p by simp
  show "userCorrectGuesses (fst (submit d s)) =
           userCorrectGuesses s \<union> (correctCodes (guesses s) - correctGuesses s)"
    using sub f3 p by simp
  show "incorrectGuesses (fst (submit d s)) = incorrectGuesses s \<union> incorrectCodes (guesses s)"
    using sub f3 p by simp
qed

lemma submit_guesses:
  assumes "guesses s \<noteq> []"
  shows "\<exists>ext. guesses (fst (submit d s)) = guesses s @ ext
       \<and> (\<forall>g \<in> set ext. g_correct g \<and> g_revealed g \<and> g_code g \<in> missedNeighbors s)"
    and "guessCodes (guesses (fst (submit d s))) =
       guessCodes (guesses s) \<union> {cd \<in> missedNeighbors s. map_of (countriesData d) cd \<noteq> None}"
    and "distinct (map g_code (guesses s)) \<Longrightarrow> distinct (map g_code (guesses (fst (submit d s))))"
proof -
  from assms obtain s2 gains l0 s3 losses where
    pg: "processGuesses (guesses s) (s\<lparr> submitted := True, revealed := True \<rparr>, 0, 0) = (s2, gains, l0)"
    and rm: "revealMissing (countriesData d) (neighbors s) (s2, l0) = (s3, losses)"
    and sub: "submit d s =
      (s3\<lparr> score := score s + (int gains - int losses),
           lastRoundGains := gains, lastRoundLosses := losses \<rparr>,
       Inr \<lparr> res_gains = gains, res_losses = losses, totalCorrect = card (correctGuesses s3),
             totalNeighbors = length (neighbors s), isComplete = True \<rparr>)"
    by (rule submit_cases)
  have g2: "guesses s2 = guesses s" using processGuesses_frame[OF pg] by simp
  have g': "guesses (fst (submit d s)) = guesses s3" using sub by simp
  show "\<exists>ext. guesses (fst (submit d s)) = guesses s @ ext
       \<and> (\<forall>g \<in> set ext. g_correct g \<and> g_revealed g \<and> g_code g \<in> missedNeighbors s)"
    using revealMissing_guesses[OF rm] unfolding g' g2 missedNeighbors_def by simp
  have "guessCodes (guesses s3) = guessCodes (guesses s) \<union>
      {cd \<in> set (neighbors s). cd \<notin> guessCodes (guesses s) \<and> map_of (countriesData d) cd \<noteq> None}"
    using revealMissing_codes[OF rm] unfolding g2 .
  moreover have "{cd \<in> set (neighbors s). cd \<notin> guessCodes (guesses s) \<and> map_of (countriesData d) cd \<noteq> None}
      = {cd \<in> missedNeighbors s. map_of (countriesData d) cd \<noteq> None}"
    by (auto simp: missedNeighbors_def)
  ultimately show "guessCodes (guesses (fst (submit d s))) =
       guessCodes (guesses s) \<union> {cd \<in> missedNeighbors s. map_of (countriesData d) cd \<noteq> None}"
    unfolding g' by simp
  show "distinct (map g_code (guesses (fst (submit d s))))" if "distinct (map g_code (guesses s))"
    using revealMissing_distinct[OF rm] that unfolding g' g2 by simp
qed

lemma submit_counts:
  assumes "guesses s \<noteq> []"
  shows "\<exists>r. snd (submit d s) = Inr r
      \<and> score (fst (submit d s)) = score s + (int (res_gains r) - int (res_losses r))
      \<and> res_gains r = card (correctCodes (guesses s) - correctGuesses s)
      \<and> totalCorrect r = card (correctGuesses (fst (submit d s)))
      \<and> totalNeighbors r = length (neighbors s)
      \<and> (distinct (neighbors s) \<or> set (neighbors s) \<subseteq> fst ` set (countriesData d) \<longrightarrow>
           res_losses r = card (incorrectCodes (guesses s) - incorrectGuesses s)
                            + card (missedNeighbors s))"
proof -
  from assms obtain s2 gains l0 s3 losses where
    pg: "processGuesses (guesses s) (s\<lparr> submitted := True, revealed := True \<rparr>, 0, 0) = (s2, gains, l0)"
    and rm: "revealMissing (countriesData d) (neighbors s) (s2, l0) = (s3, losses)"
    and sub: "submit d s =
      (s3\<lparr> score := score s + (int gains - int losses),
           lastRoundGains := gains, lastRoundLosses := losses \<rparr>,
       Inr \<lparr> res_gains = gains, res_losses = losses, totalCorrect = card (correctGuesses s3),
             totalNeighbors = length (neighbors s), isComplete = True \<rparr>)"
    by (rule submit_cases)
  have g2: "guesses s2 = guesses s" using processGuesses_frame[OF pg] by simp
  have cnt: "gains = card (correctCodes (guesses s) - correctGuesses s)"
    "l0 = card (incorrectCodes (guesses s) - incorrectGuesses s)"
    using processGuesses_counts[OF pg] by simp_all
  have ls: "losses = l0 + card (missedNeighbors s)"
    if "distinct (neighbors s) \<or> set (neighbors s) \<subseteq> fst ` set (countriesData d)"
    using revealMissing_losses[OF rm that] unfolding g2 missedNeighbors_def .
  show ?thesis using sub cnt ls by simp
qed

section \<open>Adding and removing guesses\<close>

lemma findIndex_None: "findIndex P xs = None \<longleftrightarrow> (\<forall>x \<in> set xs. \<not> P x)"
  by (induction xs) auto

lemma findIndex_split:
  "findIndex P xs = Some i \<Longrightarrow>
     \<exists>pre x post. xs = pre @ x # post \<and> P x \<and> (\<forall>y \<in> set pre. \<not> P y) \<and> i = length pre"
proof (induction xs arbitrary: i)
  case Nil
  then show ?case by simp
next
  case (Cons a xs)
  show ?case
  proof (cases "P a")
    case True
    with Cons.prems have "i = 0" by simp
    with True have "a # xs = [] @ a # xs \<and> P a \<and> (\<forall>y \<in> set []. \<not> P y) \<and> i = length ([]::'a list)"
      by simp
    then show ?thesis by blast
  next
    case False
    with Cons.prems obtain j where j: "findIndex P xs = Some j" and i: "i = Suc j"
      by auto
    from Cons.IH[OF j] obtain pre x post where
      "xs = pre @ x # post" "P x" "\<forall>y \<in> set pre. \<not> P y" "j = length pre" by blast
    with False i have "a # xs = (a # pre) @ x # post \<and> P x \<and> (\<forall>y \<in> set (a # pre). \<not> P y)
        \<and> i = length (a # pre)" by simp
    then show ?thesis by blast
  qed
qed

lemma removeGuess_absent:
  "cd \<notin> guessCodes (guesses s) \<Longrightarrow> removeGuess cd s = (s, False)"
proof -
  assume "cd \<notin> guessCodes (guesses s)"
  then have "findIndex (\<lambda>g. g_code g = cd) (guesses s) = None"
    by (auto simp: findIndex_None guessCodes_def)
  then show ?thesis by (simp add: removeGuess_def)
qed

lemma removeGuess_present:
  assumes "cd \<in> guessCodes (guesses s)"
  shows "\<exists>pre g post. guesses s = pre @ g # post \<and> g_code g = cd \<and> cd \<notin> guessCodes pre
     \<and> removeGuess cd s = (s\<lparr> guesses := pre @ post \<rparr>, True)"
proof -
  from assms have "findIndex (\<lambda>g. g_code g = cd) (guesses s) \<noteq> None"
    by (auto simp: findIndex_None guessCodes_def)
  then obtain i where i: "findIndex (\<lambda>g. g_code g = cd) (guesses s) = Some i" by auto
  from findIndex_split[OF i] obtain pre g post where
    sp: "guesses s = pre @ g # post" "g_code g = cd" "\<forall>y \<in> set pre. g_code y \<noteq> cd" "i = length pre"
    by blast
  have "take i (guesses s) @ drop (Suc i) (guesses s) = pre @ post"
    using sp(1,4) by simp
  with i have "removeGuess cd s = (s\<lparr> guesses := pre @ post \<rparr>, True)"
    by (simp add: removeGuess_def)
  moreover have "cd \<notin> guessCodes pre" using sp(3) by (auto simp: guessCodes_def)
  ultimately show ?thesis using sp(1,2) by blast
qed

lemma removeGuess_effect:
  "\<exists>gs. fst (removeGuess cd s) = s\<lparr> guesses := gs \<rparr> \<and> set gs \<subseteq> set (guesses s)
     \<and> (distinct (map g_code (guesses s)) \<longrightarrow> distinct (map g_code gs))"
proof (cases "cd \<in> guessCodes (guesses s)")
  case False
  from removeGuess_absent[OF False] have "fst (removeGuess cd s) = s\<lparr> guesses := guesses s \<rparr>"
    by simp
  then show ?thesis by blast
next
  case True
  from removeGuess_present[OF True] obtain pre g post where
    sp: "guesses s = pre @ g # post" and r: "removeGuess cd s = (s\<lparr> guesses := pre @ post \<rparr>, True)"
    by blast
  have "set (pre @ post) \<subseteq> set (guesses s)" using sp by auto
  moreover have "distinct (map g_code (guesses s)) \<longrightarrow> distinct (map g_code (pre @ post))"
    using sp by auto
  moreover have "fst (removeGuess cd s) = s\<lparr> guesses := pre @ post \<rparr>" using r by simp
  ultimately show ?thesis by blast
qed

lemma addGuess_not_found:
  "findCountryByName b nm (Some (countriesData d)) = None \<Longrightarrow>
     addGuess b d nm s = (s, Inl CountryNotFound)"
  by (simp add: addGuess_def)

lemma addGuess_duplicate:
  "findCountryByName b nm (Some (countriesData d)) = Some c \<Longrightarrow>
     c_code c \<in> guessCodes (guesses s) \<Longrightarrow> addGuess b d nm s = (s, Inl AlreadyGuessed)"
  by (simp add: addGuess_def list_ex_code)

lemma addGuess_fresh:
  "findCountryByName b nm (Some (countriesData d)) = Some c \<Longrightarrow>
     c_code c \<notin> guessCodes (guesses s) \<Longrightarrow>
     addGuess b d nm s =
       (s\<lparr> guesses := guesses s @
             [\<lparr> g_code = c_code c, g_name = c_name c,
                g_correct = (c_code c \<in> set (neighbors s)), g_revealed = False \<rparr>] \<rparr>,
        Inr (c, c_code c \<in> set (neighbors s)))"
  by (simp add: addGuess_def list_ex_code Let_def)

lemma addGuess_effect:
  "fst (addGuess b d nm s) = s \<or>
   (\<exists>c::country. c_code c \<notin> guessCodes (guesses s) \<and>
      fst (addGuess b d nm s) =
        s\<lparr> guesses := guesses s @
             [\<lparr> g_code = c_code c, g_name = c_name c,
                g_correct = (c_code c \<in> set (neighbors s)), g_revealed = False \<rparr>] \<rparr>)"
proof (cases "findCountryByName b nm (Some (countriesData d))")
  case None
  then show ?thesis by (simp add: addGuess_not_found)
next
  case (Some c)
  show ?thesis
  proof (cases "c_code c \<in> guessCodes (guesses s)")
    case True
    with Some show ?thesis by (simp add: addGuess_duplicate)
  next
    case False
    with Some have "fst (addGuess b d nm s) =
        s\<lparr> guesses := guesses s @
             [\<lparr> g_code = c_code c, g_name = c_name c,
                g_correct = (c_code c \<in> set (neighbors s)), g_revealed = False \<rparr>] \<rparr>"
      by (simp add: addGuess_fresh)
    with False show ?thesis by blast
  qed
qed


lemma startNewRound_fresh:
  assumes "startNewRound d rnd s0 = Inr s"
  shows "guesses s = []" and "correctGuesses s = {}" and "userCorrectGuesses s = {}"
    and "incorrectGuesses s = {}" and "\<not> submitted s" and "\<not> revealed s"
    and "\<exists>c. neighbors s = getNeighbors d c"
  using assms by (auto simp: startNewRound_def split: option.splits)

lemma getNeighbors_in_table:
  "getNeighbors d c = [] \<or> (c, getNeighbors d c) \<in> set (neighborsData d)"
  by (auto simp: getNeighbors_def split: option.splits dest: map_of_SomeD)

lemma guessing_invariant:
  "guessing b d s \<Longrightarrow>
     \<not> submitted s \<and> \<not> revealed s
     \<and> correctGuesses s = {} \<and> userCorrectGuesses s = {} \<and> incorrectGuesses s = {}
     \<and> (\<forall>g \<in> set (guesses s). g_correct g = (g_code g \<in> set (neighbors s)) \<and> \<not> g_revealed g)
     \<and> distinct (map g_code (guesses s))
     \<and> (\<exists>c. neighbors s = getNeighbors d c)"
proof (induction rule: guessing.induct)
  case (g_start rnd s0 s)
  from startNewRound_fresh[OF g_start(2)] show ?case by simp
next
  case (g_add s nm)
  from addGuess_effect[of b d nm s] show ?case
  proof
    assume "fst (addGuess b d nm s) = s"
    with g_add.IH show ?thesis by simp
  next
    assume "\<exists>c::country. c_code c \<notin> guessCodes (guesses s) \<and>
      fst (addGuess b d nm s) =
        s\<lparr> guesses := guesses s @
             [\<lparr> g_code = c_code c, g_name = c_name c,
                g_correct = (c_code c \<in> set (neighbors s)), g_revealed = False \<rparr>] \<rparr>"
    then obtain c :: country where c: "c_code c \<notin> guessCodes (guesses s)"
      and e: "fst (addGuess b d nm s) =
        s\<lparr> guesses := guesses s @
             [\<lparr> g_code = c_code c, g_name = c_name c,
                g_correct = (c_code c \<in> set (neighbors s)), g_revealed = False \<rparr>] \<rparr>"
      by blast
    show ?thesis unfolding e using g_add.IH c by (auto simp: guessCodes_def)
  qed
next
  case (g_remove s cd)
  from removeGuess_effect[of cd s] obtain gs where
    e: "fst (removeGuess cd s) = s\<lparr> guesses := gs \<rparr>" and sub: "set gs \<subseteq> set (guesses s)"
    and dist: "distinct (map g_code (guesses s)) \<longrightarrow> distinct (map g_code gs)"
    by blast
  show ?case unfolding e using g_remove.IH sub dist by auto
qed

section \<open>Properties of the round state machine\<close>

lemma guessing_neighbors_known:
  assumes "guessing b d s"
    and "\<forall>(cd, ns) \<in> set (neighborsData d). set ns \<subseteq> fst ` set (countriesData d)"
  shows "set (neighbors s) \<subseteq> fst ` set (countriesData d)"
proof -
  from guessing_invariant[OF assms(1)] obtain c where c: "neighbors s = getNeighbors d c" by blast
  from getNeighbors_in_table[of d c] show ?thesis
  proof
    assume "getNeighbors d c = []"
    with c show ?thesis by simp
  next
    assume "(c, getNeighbors d c) \<in> set (neighborsData d)"
    with assms(2) c show ?thesis by fastforce
  qed
qed

lemma guessing_correctCodes:
  assumes "guessing b d s"
  shows "correctCodes (guesses s) = guessCodes (guesses s) \<inter> set (neighbors s)"
  using guessing_invariant[OF assms] by (auto simp: correctCodes_def guessCodes_def)

lemma guessing_submit_correct:
  assumes "guessing b d s" and "guesses s \<noteq> []"
  shows "correctGuesses (fst (submit d s)) = set (neighbors s)"
proof -
  have "correctGuesses s = {}" using guessing_invariant[OF assms(1)] by simp
  then have "correctGuesses (fst (submit d s)) = correctCodes (guesses s) \<union> missedNeighbors s"
    using submit_sets(1)[OF assms(2), of d] by simp
  also have "\<dots> = set (neighbors s)"
    unfolding guessing_correctCodes[OF assms(1)] missedNeighbors_def by auto
  finally show ?thesis .
qed



lemma removeGuess_locked:
  assumes "g \<in> set (guesses s)"
  shows "snd (removeGuess (g_code g) s) = True"
    and "Suc (length (guesses (fst (removeGuess (g_code g) s)))) = length (guesses s)"
    and "distinct (map g_code (guesses s)) \<Longrightarrow> g \<notin> set (guesses (fst (removeGuess (g_code g) s)))"
proof -
  from assms have "g_code g \<in> guessCodes (guesses s)" by (auto simp: guessCodes_def)
  from removeGuess_present[OF this] obtain pre h post where
    sp: "guesses s = pre @ h # post" "g_code h = g_code g"
    and r: "removeGuess (g_code g) s = (s\<lparr> guesses := pre @ post \<rparr>, True)"
    by blast
  show "snd (removeGuess (g_code g) s) = True" using r by simp
  show "Suc (length (guesses (fst (removeGuess (g_code g) s)))) = length (guesses s)"
    using r sp(1) by simp
  show "g \<notin> set (guesses (fst (removeGuess (g_code g) s)))"
    if "distinct (map g_code (guesses s))"
  proof -
    from that sp have "g_code g \<notin> g_code ` set (pre @ post)" by auto
    then have "g \<notin> set (pre @ post)" by blast
    then show ?thesis using r by simp
  qed
qed







lemma correctCodes_append [simp]: "correctCodes (gs @ hs) = correctCodes gs \<union> correctCodes hs"
  by (auto simp: correctCodes_def)

lemma incorrectCodes_append [simp]:
  "incorrectCodes (gs @ hs) = incorrectCodes gs \<union> incorrectCodes hs"
  by (auto simp: incorrectCodes_def)

lemma found_after_submit:
  assumes "guessing b d s" and "guesses s \<noteq> []"
  shows "found (st_progress (getState (fst (submit d s)))) = card (correctCodes (guesses s))
    \<and> found (st_progress (getState (fst (submit d s)))) \<le> length (guesses s)
    \<and> filter (\<lambda>g. \<not> g_revealed g) (guesses (fst (submit d s))) = guesses s
    \<and> (\<forall>g \<in> set (guesses (fst (submit d s))). g_revealed g \<longrightarrow>
          g_code g \<notin> userCorrectGuesses (fst (submit d s))
          \<and> g_code g \<in> correctGuesses (fst (submit d s)))
    \<and> correctCount (getState (fst (submit d s))) =
        found (st_progress (getState (fst (submit d s)))) + card (missedNeighbors s)"
proof -
  let ?s' = "fst (submit d s)"
  note inv = guessing_invariant[OF assms(1)]
  have user: "userCorrectGuesses ?s' = correctCodes (guesses s)"
    using submit_sets(2)[OF assms(2), of d] inv by simp
  have corr: "correctGuesses ?s' = correctCodes (guesses s) \<union> missedNeighbors s"
    using submit_sets(1)[OF assms(2), of d] inv by simp
  have fnd: "found (st_progress (getState ?s')) = card (correctCodes (guesses s))"
    using user by (simp add: getState_def)
  have "card (correctCodes (guesses s)) \<le> card {g \<in> set (guesses s). g_correct g}"
    unfolding correctCodes_def by (rule card_image_le) simp
  also have "\<dots> \<le> card (set (guesses s))" by (rule card_mono) auto
  also have "\<dots> \<le> length (guesses s)" by (rule card_length)
  finally have le: "card (correctCodes (guesses s)) \<le> length (guesses s)" .
  from submit_guesses(1)[OF assms(2), of d] obtain ext where
    ext: "guesses ?s' = guesses s @ ext"
    and extp: "\<forall>g \<in> set ext. g_correct g \<and> g_revealed g \<and> g_code g \<in> missedNeighbors s"
    by blast
  have old: "filter (\<lambda>g. \<not> g_revealed g) (guesses s) = guesses s"
    using inv by (simp add: filter_id_conv)
  have new: "filter (\<lambda>g. \<not> g_revealed g) ext = []"
    using extp by (simp add: filter_empty_conv)
  have flt: "filter (\<lambda>g. \<not> g_revealed g) (guesses ?s') = guesses s"
    unfolding ext using old new by simp
  have disj: "correctCodes (guesses s) \<inter> missedNeighbors s = {}"
    by (auto simp: correctCodes_def missedNeighbors_def guessCodes_def)
  have rev: "g_code g \<notin> userCorrectGuesses ?s' \<and> g_code g \<in> correctGuesses ?s'"
    if "g \<in> set (guesses ?s')" "g_revealed g" for g
  proof -
    from that inv ext have "g \<in> set ext" by auto
    with extp have "g_code g \<in> missedNeighbors s" by simp
    with disj show ?thesis unfolding user corr by auto
  qed
  have "finite (missedNeighbors s)" by (simp add: missedNeighbors_def)
  then have "card (correctCodes (guesses s) \<union> missedNeighbors s)
      = card (correctCodes (guesses s)) + card (missedNeighbors s)"
    using disj by (simp add: card_Un_disjoint)
  then have cc: "correctCount (getState ?s') = found (st_progress (getState ?s')) + card (missedNeighbors s)"
    using corr user by (simp add: getState_def)
  from fnd le flt rev cc show ?thesis by simp
qed

lemma revealAll_effect:
  "userCorrectGuesses (revealAll ct cds s) = userCorrectGuesses s
   \<and> neighbors (revealAll ct cds s) = neighbors s
   \<and> correctGuesses (revealAll ct cds s) = correctGuesses s \<union> set cds
   \<and> (\<exists>ext. guesses (revealAll ct cds s) = guesses s @ ext
         \<and> (\<forall>g \<in> set ext. g_correct g \<and> \<not> g_revealed g \<and> g_code g \<in> set cds))"
proof (induction cds arbitrary: s)
  case Nil
  show ?case by simp
next
  case (Cons cd cds)
  let ?c = "s\<lparr> correctGuesses := insert cd (correctGuesses s) \<rparr>"
  show ?case
  proof (cases "cd \<in> guessCodes (guesses s) \<or> map_of ct cd = None")
    case True
    then have e: "revealAll ct (cd # cds) s = revealAll ct cds ?c"
      by (auto simp: list_ex_code)
    from Cons.IH[of ?c] obtain ext where
      "userCorrectGuesses (revealAll ct cds ?c) = userCorrectGuesses s"
      "neighbors (revealAll ct cds ?c) = neighbors s"
      "correctGuesses (revealAll ct cds ?c) = insert cd (correctGuesses s) \<union> set cds"
      "guesses (revealAll ct cds ?c) = guesses s @ ext"
      "\<forall>g \<in> set ext. g_correct g \<and> \<not> g_revealed g \<and> g_code g \<in> set cds"
      by auto
    then show ?thesis unfolding e by auto
  next
    case False
    then obtain country where f: "cd \<notin> guessCodes (guesses s)" "map_of ct cd = Some country"
      by auto
    let ?g = "\<lparr> g_code = cd, g_name = c_name country, g_correct = True, g_revealed = False \<rparr>"
    let ?t = "s\<lparr> guesses := guesses s @ [?g], correctGuesses := insert cd (correctGuesses s) \<rparr>"
    from f have e: "revealAll ct (cd # cds) s = revealAll ct cds ?t"
      by (simp add: list_ex_code)
    from Cons.IH[of ?t] obtain ext where
      r: "userCorrectGuesses (revealAll ct cds ?t) = userCorrectGuesses s"
      "neighbors (revealAll ct cds ?t) = neighbors s"
      "correctGuesses (revealAll ct cds ?t) = insert cd (correctGuesses s) \<union> set cds"
      and x: "guesses (revealAll ct cds ?t) = (guesses s @ [?g]) @ ext"
      "\<forall>g \<in> set ext. g_correct g \<and> \<not> g_revealed g \<and> g_code g \<in> set cds"
      by auto
    have "guesses (revealAll ct cds ?t) = guesses s @ (?g # ext)" using x(1) by simp
    moreover have "\<forall>g \<in> set (?g # ext). g_correct g \<and> \<not> g_revealed g \<and> g_code g \<in> set (cd # cds)"
      using x(2) by simp
    ultimately have "\<exists>ext. guesses (revealAll ct cds ?t) = guesses s @ ext
         \<and> (\<forall>g \<in> set ext. g_correct g \<and> \<not> g_revealed g \<and> g_code g \<in> set (cd # cds))"
      by blast
    with r show ?thesis unfolding e by auto
  qed
qed

lemma addGuess_success:
  assumes "addGuess b d nm s = (s', Inr (c, ok))"
  shows "s' = s\<lparr> guesses := guesses s @
             [\<lparr> g_code = c_code c, g_name = c_name c,
                g_correct = (c_code c \<in> set (neighbors s)), g_revealed = False \<rparr>] \<rparr>"
  using assms by (auto simp: addGuess_def Let_def split: option.splits if_splits)

lemma addGuess_failure:
  assumes "addGuess b d nm s = (s', Inl e)"
  shows "s' = s"
  using assms by (auto simp: addGuess_def Let_def split: option.splits if_splits)

lemma roundInvariantD:
  assumes "roundInvariant issued s"
  shows "userCorrectGuesses s \<subseteq> set issued"
    and "userCorrectGuesses s \<subseteq> correctGuesses s"
    and "correctGuesses s \<subseteq> set (neighbors s)"
    and "\<forall>g \<in> set (guesses s). g_correct g \<longrightarrow> g_code g \<in> set (neighbors s)"
    and "\<forall>g \<in> set (guesses s). g_code g \<in> set issued \<or> g_code g \<in> correctGuesses s"
    and "\<forall>g \<in> set (guesses s). g_revealed g \<longrightarrow> g_code g \<in> correctGuesses s"
  using assms by (simp_all add: roundInvariant_def)

lemma roundInvariantI:
  assumes "userCorrectGuesses s \<subseteq> set issued"
    and "userCorrectGuesses s \<subseteq> correctGuesses s"
    and "correctGuesses s \<subseteq> set (neighbors s)"
    and "\<forall>g \<in> set (guesses s). g_correct g \<longrightarrow> g_code g \<in> set (neighbors s)"
    and "\<forall>g \<in> set (guesses s). g_code g \<in> set issued \<or> g_code g \<in> correctGuesses s"
    and "\<forall>g \<in> set (guesses s). g_revealed g \<longrightarrow> g_code g \<in> correctGuesses s"
  shows "roundInvariant issued s"
  using assms by (simp add: roundInvariant_def)

lemma roundInvariant_fresh:
  assumes "guesses s = []" "correctGuesses s = {}" "userCorrectGuesses s = {}"
  shows "roundInvariant [] s"
  using assms by (simp add: roundInvariant_def)

lemma roundInvariant_add:
  assumes "roundInvariant issued s" and "addGuess b d nm s = (s', Inr (c, ok))"
  shows "roundInvariant (issued @ [c_code c]) s'"
proof (rule roundInvariantI)
  let ?g = "\<lparr> g_code = c_code c, g_name = c_name c,
                g_correct = (c_code c \<in> set (neighbors s)), g_revealed = False \<rparr>"
  have e: "s' = s\<lparr> guesses := guesses s @ [?g] \<rparr>" by (rule addGuess_success[OF assms(2)])
  note inv = roundInvariantD[OF assms(1)]
  show "userCorrectGuesses s' \<subseteq> set (issued @ [c_code c])" unfolding e using inv(1) by auto
  show "userCorrectGuesses s' \<subseteq> correctGuesses s'" unfolding e using inv(2) by simp
  show "correctGuesses s' \<subseteq> set (neighbors s')" unfolding e using inv(3) by simp
  show "\<forall>g \<in> set (guesses s'). g_correct g \<longrightarrow> g_code g \<in> set (neighbors s')"
    unfolding e using inv(4) by simp
  show "\<forall>g \<in> set (guesses s'). g_code g \<in> set (issued @ [c_code c]) \<or> g_code g \<in> correctGuesses s'"
    unfolding e using inv(5) by auto
  show "\<forall>g \<in> set (guesses s'). g_revealed g \<longrightarrow> g_code g \<in> correctGuesses s'"
    unfolding e using inv(6) by simp
qed

lemma roundInvariant_remove:
  assumes "roundInvariant issued s"
  shows "roundInvariant issued (fst (removeGuess cd s))"
proof -
  from removeGuess_effect[of cd s] obtain gs where
    e: "fst (removeGuess cd s) = s\<lparr> guesses := gs \<rparr>" and sub: "set gs \<subseteq> set (guesses s)"
    by blast
  note inv = roundInvariantD[OF assms]
  show ?thesis unfolding e
  proof (rule roundInvariantI)
    show "userCorrectGuesses (s\<lparr> guesses := gs \<rparr>) \<subseteq> set issued" using inv(1) by simp
    show "userCorrectGuesses (s\<lparr> guesses := gs \<rparr>) \<subseteq> correctGuesses (s\<lparr> guesses := gs \<rparr>)"
      using inv(2) by simp
    show "correctGuesses (s\<lparr> guesses := gs \<rparr>) \<subseteq> set (neighbors (s\<lparr> guesses := gs \<rparr>))"
      using inv(3) by simp
    show "\<forall>g \<in> set (guesses (s\<lparr> guesses := gs \<rparr>)). g_correct g \<longrightarrow>
        g_code g \<in> set (neighbors (s\<lparr> guesses := gs \<rparr>))"
      using inv(4) sub by auto
    show "\<forall>g \<in> set (guesses (s\<lparr> guesses := gs \<rparr>)). g_code g \<in> set issued
        \<or> g_code g \<in> correctGuesses (s\<lparr> guesses := gs \<rparr>)"
      using inv(5) sub by auto
    show "\<forall>g \<in> set (guesses (s\<lparr> guesses := gs \<rparr>)). g_revealed g \<longrightarrow>
        g_code g \<in> correctGuesses (s\<lparr> guesses := gs \<rparr>)"
      using inv(6) sub by auto
  qed
qed

lemma roundInvariant_submit:
  assumes "roundInvariant issued s"
  shows "roundInvariant issued (fst (submit d s))"
proof (cases "guesses s = []")
  case True
  with assms show ?thesis by (simp add: submit_empty)
next
  case False
  let ?s' = "fst (submit d s)"
  note inv = roundInvariantD[OF assms]
  note sets = submit_sets[OF False, of d]
  from submit_guesses(1)[OF False, of d] obtain ext where
    ext: "guesses ?s' = guesses s @ ext"
    and extp: "\<forall>g \<in> set ext. g_correct g \<and> g_revealed g \<and> g_code g \<in> missedNeighbors s"
    by blast
  have n: "neighbors ?s' = neighbors s" by (rule submit_frame(1)[OF False])
  have m: "missedNeighbors s \<subseteq> set (neighbors s)" by (auto simp: missedNeighbors_def)
  have cn: "correctCodes (guesses s) \<subseteq> set (neighbors s)"
    using inv(4) by (auto simp: correctCodes_def)
  have ci: "correctCodes (guesses s) - correctGuesses s \<subseteq> set issued"
    using inv(5) by (auto simp: correctCodes_def)
  show ?thesis
  proof (rule roundInvariantI)
    show "userCorrectGuesses ?s' \<subseteq> set issued" unfolding sets(2) using inv(1) ci by blast
    show "userCorrectGuesses ?s' \<subseteq> correctGuesses ?s'" unfolding sets using inv(2) by blast
    show "correctGuesses ?s' \<subseteq> set (neighbors ?s')" unfolding sets n using inv(3) cn m by blast
    show "\<forall>g \<in> set (guesses ?s'). g_correct g \<longrightarrow> g_code g \<in> set (neighbors ?s')"
      unfolding ext n using inv(4) extp m by auto
    show "\<forall>g \<in> set (guesses ?s'). g_code g \<in> set issued \<or> g_code g \<in> correctGuesses ?s'"
      unfolding ext sets(1) using inv(5) extp by auto
    show "\<forall>g \<in> set (guesses ?s'). g_revealed g \<longrightarrow> g_code g \<in> correctGuesses ?s'"
      unfolding ext sets(1) using inv(6) extp by auto
  qed
qed

lemma roundInvariant_reveal:
  assumes "roundInvariant issued s"
  shows "roundInvariant issued (fst (reveal d s))"
proof -
  let ?s' = "revealAll (countriesData d) (neighbors s) (s\<lparr> revealed := True \<rparr>)"
  have e: "fst (reveal d s) = ?s'" by (simp add: reveal_def Let_def)
  note inv = roundInvariantD[OF assms]
  from revealAll_effect[of "countriesData d" "neighbors s" "s\<lparr> revealed := True \<rparr>"]
  obtain ext where
    u: "userCorrectGuesses ?s' = userCorrectGuesses s"
    and n: "neighbors ?s' = neighbors s"
    and c: "correctGuesses ?s' = correctGuesses s \<union> set (neighbors s)"
    and g: "guesses ?s' = guesses s @ ext"
    and x: "\<forall>g \<in> set ext. g_correct g \<and> \<not> g_revealed g \<and> g_code g \<in> set (neighbors s)"
    by auto
  show ?thesis unfolding e
  proof (rule roundInvariantI)
    show "userCorrectGuesses ?s' \<subseteq> set issued" unfolding u by (rule inv(1))
    show "userCorrectGuesses ?s' \<subseteq> correctGuesses ?s'" unfolding u c using inv(2) by blast
    show "correctGuesses ?s' \<subseteq> set (neighbors ?s')" unfolding c n using inv(3) by blast
    show "\<forall>g \<in> set (guesses ?s'). g_correct g \<longrightarrow> g_code g \<in> set (neighbors ?s')"
      unfolding g n using inv(4) x by auto
    show "\<forall>g \<in> set (guesses ?s'). g_code g \<in> set issued \<or> g_code g \<in> correctGuesses ?s'"
      unfolding g c using inv(5) x by auto
    show "\<forall>g \<in> set (guesses ?s'). g_revealed g \<longrightarrow> g_code g \<in> correctGuesses ?s'"
      unfolding g c using inv(6) x by auto
  qed
qed

lemma played_invariant: "played b d issued s \<Longrightarrow> roundInvariant issued s"
proof (induction rule: played.induct)
  case p_new
  show ?case by (rule roundInvariant_fresh) (simp_all add: reset_def)
next
  case (p_start issued0 s0 rnd s)
  from startNewRound_fresh(1-3)[OF p_start(3)] show ?case by (rule roundInvariant_fresh)
next
  case (p_next issued0 s0 rnd s)
  from p_next(3) have "startNewRound d rnd (s0\<lparr> round := round s0 + 1 \<rparr>) = Inr s"
    by (simp add: nextRound_def)
  from startNewRound_fresh(1-3)[OF this] show ?case by (rule roundInvariant_fresh)
next
  case (p_add issued s nm s' c ok)
  from p_add(3) p_add(2) show ?case by (rule roundInvariant_add)
next
  case (p_add_failed issued s nm s' e)
  from addGuess_failure[OF p_add_failed(2)] p_add_failed(3) show ?case by simp
next
  case (p_remove issued s cd)
  then show ?case by (simp add: roundInvariant_remove)
next
  case (p_submit issued s)
  then show ?case by (simp add: roundInvariant_submit)
next
  case (p_reveal issued s)
  then show ?case by (simp add: roundInvariant_reveal)
qed

lemma reachable_played: "reachable b d s \<Longrightarrow> \<exists>issued. played b d issued s"
proof (induction rule: reachable.induct)
  case r_new
  show ?case using p_new by blast
next
  case (r_start s0 rnd s)
  then show ?case using p_start by blast
next
  case (r_next s0 rnd s)
  then show ?case using p_next by blast
next
  case (r_add s nm)
  then obtain issued where p: "played b d issued s" by blast
  obtain s' res where a: "addGuess b d nm s = (s', res)" by (cases "addGuess b d nm s")
  show ?case
  proof (cases res)
    case (Inl e)
    with p a have "played b d issued s'" using p_add_failed by blast
    with a show ?thesis by auto
  next
    case (Inr cr)
    obtain c ok where "cr = (c, ok)" by (cases cr)
    with Inr p a have "played b d (issued @ [c_code c]) s'" using p_add by blast
    with a show ?thesis by auto
  qed
next
  case (r_remove s cd)
  then show ?case using p_remove by blast
next
  case (r_submit s)
  then show ?case using p_submit by blast
next
  case (r_reveal s)
  then show ?case using p_reveal by blast
qed

lemma played_found:
  assumes "played b d issued s"
  shows "userCorrectGuesses s \<subseteq> set issued \<inter> set (neighbors s)"
    and "found (st_progress (getState s)) \<le> length issued"
    and "found (st_progress (getState s)) \<le> correctCount (getState s)"
    and "\<forall>g \<in> set (guesses s). g_revealed g \<longrightarrow> g_code g \<in> correctGuesses s"
proof -
  note inv = roundInvariantD[OF played_invariant[OF assms]]
  show sub: "userCorrectGuesses s \<subseteq> set issued \<inter> set (neighbors s)"
    using inv(1,2,3) by blast
  have "card (userCorrectGuesses s) \<le> card (set issued)"
    by (rule card_mono) (use inv(1) in auto)
  also have "\<dots> \<le> length issued" by (rule card_length)
  finally show "found (st_progress (getState s)) \<le> length issued" by (simp add: getState_def)
  have "finite (correctGuesses s)"
    by (rule finite_subset[of _ "set (neighbors s)"]) (use inv(3) in auto)
  then have "card (userCorrectGuesses s) \<le> card (correctGuesses s)"
    by (intro card_mono) (use inv(2) in auto)
  then show "found (st_progress (getState s)) \<le> correctCount (getState s)"
    by (simp add: getState_def)
  show "\<forall>g \<in> set (guesses s). g_revealed g \<longrightarrow> g_code g \<in> correctGuesses s"
    by (rule inv(6))
qed

lemma submit_synthesized:
  assumes "guesses s \<noteq> []"
  shows "\<exists>ext. guesses (fst (submit d s)) = guesses s @ ext
      \<and> (\<forall>g \<in> set ext. g_revealed g
            \<and> g_code g \<in> correctGuesses (fst (submit d s))
            \<and> g_code g \<notin> userCorrectGuesses (fst (submit d s)) - userCorrectGuesses s)"
proof -
  from submit_guesses(1)[OF assms, of d] obtain ext where
    ext: "guesses (fst (submit d s)) = guesses s @ ext"
    and extp: "\<forall>g \<in> set ext. g_correct g \<and> g_revealed g \<and> g_code g \<in> missedNeighbors s"
    by blast
  have "correctCodes (guesses s) \<inter> missedNeighbors s = {}"
    by (auto simp: correctCodes_def missedNeighbors_def guessCodes_def)
  then have "\<forall>g \<in> set ext. g_revealed g
            \<and> g_code g \<in> correctGuesses (fst (submit d s))
            \<and> g_code g \<notin> userCorrectGuesses (fst (submit d s)) - userCorrectGuesses s"
    unfolding submit_sets[OF assms] using extp by auto
  with ext show ?thesis by blast
qed

section \<open>The shape of a normalised name\<close>


lemma word_not_space: "isWordChar u \<Longrightarrow> \<not> isSpaceChar u"
  by (auto simp: isWordChar_def isSpaceChar_def)





























section \<open>Lookup and search\<close>

lemma isPrefixOf_iff: "isPrefixOf needle hay \<longleftrightarrow> (\<exists>ss. hay = needle @ ss)"
  by (induction needle hay rule: isPrefixOf.induct) auto

lemma jsIncludes_iff: "jsIncludes hay needle \<longleftrightarrow> (\<exists>ps ss. hay = ps @ needle @ ss)"
proof (induction hay)
  case Nil
  then show ?case by simp
next
  case (Cons h hs)
  show ?case
  proof
    assume "jsIncludes (h # hs) needle"
    then consider "isPrefixOf needle (h # hs)" | "jsIncludes hs needle" by auto
    then show "\<exists>ps ss. h # hs = ps @ needle @ ss"
    proof cases
      case 1
      then obtain ss where "h # hs = [] @ needle @ ss" by (auto simp: isPrefixOf_iff)
      then show ?thesis by blast
    next
      case 2
      with Cons.IH obtain ps ss where "hs = ps @ needle @ ss" by blast
      then have "h # hs = (h # ps) @ needle @ ss" by simp
      then show ?thesis by blast
    qed
  next
    assume "\<exists>ps ss. h # hs = ps @ needle @ ss"
    then obtain ps ss where e: "h # hs = ps @ needle @ ss" by blast
    show "jsIncludes (h # hs) needle"
    proof (cases ps)
      case Nil
      with e have "isPrefixOf needle (h # hs)" by (auto simp: isPrefixOf_iff)
      then show ?thesis by simp
    next
      case (Cons p ps')
      with e have "hs = ps' @ needle @ ss" by simp
      with Cons.IH have "jsIncludes hs needle" by blast
      then show ?thesis by simp
    qed
  qed
qed


lemma aliasIncludes_iff:
  "aliasIncludes b n c \<longleftrightarrow>
     (\<exists>as. c_aliases c = Some as \<and> (\<exists>alias \<in> set as. jsIncludes (normalizeName b alias) n))"
  by (auto simp: aliasIncludes_def list_ex_iff split: option.splits)



lemma collectMatches_filter:
  "collectMatches b n excl tbl =
     map (toResult b n) (filter (\<lambda>e. fst e \<notin> set excl \<and> matchesQuery b n (snd e)) tbl)"
proof (induction tbl)
  case Nil
  show ?case by simp
next
  case (Cons e tbl)
  obtain cd c where e: "e = (cd, c)" by (cases e)
  have al: "aliasIncludes b n c \<longleftrightarrow>
      (\<exists>as. c_aliases c = Some as \<and> (\<exists>alias \<in> set as. jsIncludes (normalizeName b alias) n))"
    by (rule aliasIncludes_iff)
  show ?case
  proof (cases "cd \<in> set excl")
    case True
    with Cons.IH show ?thesis unfolding e by simp
  next
    case False
    show ?thesis
    proof (cases "jsIncludes (normalizeName b (c_name c)) n")
      case True
      with False Cons.IH show ?thesis unfolding e
        by (simp add: matchesQuery_def toResult_def)
    next
      case noName: False
      show ?thesis
      proof (cases "aliasIncludes b n c")
        case True
        then have "matchesQuery b n c" unfolding matchesQuery_def al by simp
        with True noName False Cons.IH show ?thesis unfolding e
          by (simp add: toResult_def)
      next
        case noAlias: False
        then have "\<not> matchesQuery b n c" using noName unfolding matchesQuery_def al by simp
        with noAlias noName False Cons.IH show ?thesis unfolding e by simp
      qed
    qed
  qed
qed

lemma mset_insertSorted: "mset (insertSorted cmp x ys) = add_mset x (mset ys)"
  by (induction ys) auto

lemma set_insertSorted: "set (insertSorted cmp x ys) = insert x (set ys)"
  by (induction ys) auto

lemma mset_sortWith: "mset (sortWith cmp xs) = mset xs"
  unfolding sortWith_def by (induction xs) (auto simp: mset_insertSorted)

lemma sorted_insertSorted:
  assumes total: "\<And>x y. cmp x y \<le> 0 \<or> cmp y x \<le> 0"
    and trans: "\<And>x y z. cmp x y \<le> 0 \<Longrightarrow> cmp y z \<le> 0 \<Longrightarrow> cmp x z \<le> 0"
  shows "sorted_wrt (\<lambda>x y. cmp x y \<le> 0) ys \<Longrightarrow>
     sorted_wrt (\<lambda>x y. cmp x y \<le> 0) (insertSorted cmp x ys)"
proof (induction ys)
  case Nil
  then show ?case by simp
next
  case (Cons y ys)
  show ?case
  proof (cases "cmp x y \<le> 0")
    case True
    then have "\<forall>z \<in> set ys. cmp x z \<le> 0" using Cons.prems trans by auto
    with True Cons.prems show ?thesis by simp
  next
    case False
    then have yx: "cmp y x \<le> 0" using total[of x y] by simp
    have "sorted_wrt (\<lambda>x y. cmp x y \<le> 0) (insertSorted cmp x ys)"
      using Cons by simp
    with False yx Cons.prems show ?thesis by (simp add: set_insertSorted)
  qed
qed

lemma sorted_sortWith:
  assumes "\<And>x y. cmp x y \<le> 0 \<or> cmp y x \<le> 0"
    and "\<And>x y z. cmp x y \<le> 0 \<Longrightarrow> cmp y z \<le> 0 \<Longrightarrow> cmp x z \<le> 0"
  shows "sorted_wrt (\<lambda>x y. cmp x y \<le> 0) (sortWith cmp xs)"
  unfolding sortWith_def
  by (induction xs) (auto intro: sorted_insertSorted[OF assms])

lemma compareResults_le:
  "compareResults b n x y \<le> 0 \<longleftrightarrow> rankedBefore b n x y"
  by (auto simp: compareResults_def rankedBefore_def isExactMatch_def Let_def)

lemma rankedBefore_total: "rankedBefore b n x y \<or> rankedBefore b n y x"
  by (auto simp: rankedBefore_def)

lemma rankedBefore_trans:
  "rankedBefore b n x y \<Longrightarrow> rankedBefore b n y z \<Longrightarrow> rankedBefore b n x z"
  by (auto simp: rankedBefore_def)

lemma sorted_search:
  "sorted_wrt (rankedBefore b n) (sortWith (compareResults b n) xs)"
proof -
  have "sorted_wrt (\<lambda>x y. compareResults b n x y \<le> 0) (sortWith (compareResults b n) xs)"
    by (rule sorted_sortWith)
       (use rankedBefore_total rankedBefore_trans in \<open>auto simp: compareResults_le\<close>)
  then show ?thesis by (simp add: compareResults_le)
qed



section \<open>The example directory, evaluated\<close>

lemmas latin1_eval = normalizeName_def latin1_def latin1LowerUnit_def latin1NfdUnit_def
  latin1Decomposition_def isCombiningMark_def isWordChar_def isSpaceChar_def trim_def ustr_def

lemma norm_France: "normalizeName latin1 (ustr ''France'') = [102, 114, 97, 110, 99, 101]"
  by (simp add: latin1_eval)

lemma norm_Spain: "normalizeName latin1 (ustr ''Spain'') = [115, 112, 97, 105, 110]"
  by (simp add: latin1_eval)

lemma norm_Espana: "normalizeName latin1 (ustr ''Espana'') = [101, 115, 112, 97, 110, 97]"
  by (simp add: latin1_eval)

lemma norm_Germany: "normalizeName latin1 (ustr ''Germany'') = [103, 101, 114, 109, 97, 110, 121]"
  by (simp add: latin1_eval)

lemma norm_Deutschland:
  "normalizeName latin1 (ustr ''Deutschland'') = [100, 101, 117, 116, 115, 99, 104, 108, 97, 110, 100]"
  by (simp add: latin1_eval)

lemma norm_Iceland: "normalizeName latin1 (ustr ''Iceland'') = [105, 99, 101, 108, 97, 110, 100]"
  by (simp add: latin1_eval)

lemma norm_IvoryCoast:
  "normalizeName latin1 (ustr ''Ivory Coast'') = [105, 118, 111, 114, 121, 32, 99, 111, 97, 115, 116]"
  by (simp add: latin1_eval)

lemma norm_coteAccented:
  "normalizeName latin1 coteAccented = [99, 111, 116, 101, 32, 100, 105, 118, 111, 105, 114, 101]"
  by (simp add: latin1_eval coteAccented_def)

lemma norm_Atlantis: "normalizeName latin1 (ustr ''Atlantis'') = [97, 116, 108, 97, 110, 116, 105, 115]"
  by (simp add: latin1_eval)

lemmas demo_norm = norm_France norm_Spain norm_Espana norm_Germany norm_Deutschland norm_Iceland
  norm_IvoryCoast norm_coteAccented norm_Atlantis

lemmas demo_data = demo_def demoCountries_def demoNeighbors_def france_def spain_def germany_def
  ivoryCoast_def iceland_def

lemma demo_find_Spain: "findCountryByName latin1 (ustr ''Spain'') (Some (countriesData demo)) = Some spain"
  by (simp add: findCountryByName_def demo_data demo_norm aliasMatches_def)

lemma demo_find_Iceland: "findCountryByName latin1 (ustr ''Iceland'') (Some (countriesData demo)) = Some iceland"
  by (simp add: findCountryByName_def demo_data demo_norm aliasMatches_def)

lemma demo_find_Atlantis: "findCountryByName latin1 (ustr ''Atlantis'') (Some (countriesData demo)) = None"
  by (simp add: findCountryByName_def demo_data demo_norm aliasMatches_def)

lemma demo_candidates:
  "getCountriesWithNeighbors (Some (countriesData demo)) (Some (neighborsData demo)) = [france, spain, germany]"
  by (simp add: getCountriesWithNeighbors_def demo_data List.map_filter_def)

lemma demo_start: "startNewRound demo 0 reset = Inr demoStart"
proof -
  have c: "getRandomCountryWithNeighbors demo 0 = Some france"
    by (simp add: getRandomCountryWithNeighbors_def demo_candidates Let_def)
  have k: "c_code france = ''FRA''" by (simp add: france_def)
  have n: "getNeighbors demo ''FRA'' = [''ESP'', ''DEU'']"
    by (simp add: getNeighbors_def demo_def demoNeighbors_def)
  have nc: "toNeighborCountry (countriesData demo) ''ESP'' =
        \<lparr> n_code = ''ESP'', n_name = Some (ustr ''Spain''), n_aliases = Some [ustr ''Espana''] \<rparr>"
      "toNeighborCountry (countriesData demo) ''DEU'' =
        \<lparr> n_code = ''DEU'', n_name = Some (ustr ''Germany''), n_aliases = Some [ustr ''Deutschland''] \<rparr>"
    by (simp_all add: toNeighborCountry_def demo_def demoCountries_def spain_def germany_def)
  show ?thesis
    by (simp add: startNewRound_def c k n nc reset_def demoStart_def)
qed

lemma demo_add_Spain: "addGuess latin1 demo (ustr ''Spain'') demoStart = (demoGuessed, Inr (spain, True))"
proof -
  have "c_code spain \<notin> guessCodes (guesses demoStart)" by (simp add: demoStart_def guessCodes_def)
  from addGuess_fresh[OF demo_find_Spain this] show ?thesis
    by (simp add: demoGuessed_def demoStart_def spainGuess_def spain_def)
qed

lemma demo_submit:
  "submit demo demoGuessed =
     (demoFinal, Inr \<lparr> res_gains = 1, res_losses = 1, totalCorrect = 2, totalNeighbors = 2,
                       isComplete = True \<rparr>)"
  by (simp add: submit_def demoGuessed_def demoStart_def demoFinal_def spainGuess_def
      germanyRevealed_def demo_data insert_commute)

lemma demo_guessing: "guessing latin1 demo demoGuessed"
proof -
  have "guessing latin1 demo demoStart"
    by (rule g_start[where rnd = 0 and ?s0.0 = reset]) (simp_all add: demo_candidates demo_start)
  then have "guessing latin1 demo (fst (addGuess latin1 demo (ustr ''Spain'') demoStart))"
    by (rule g_add)
  then show ?thesis by (simp add: demo_add_Spain)
qed

lemma demo_guessed_facts:
  "guesses demoGuessed = [spainGuess]" "neighbors demoGuessed = [''ESP'', ''DEU'']"
  "score demoGuessed = 0" "correctGuesses demoGuessed = {}" "incorrectGuesses demoGuessed = {}"
  by (simp_all add: demoGuessed_def demoStart_def)

lemma demo_final_facts:
  "guesses demoFinal = [spainGuess, germanyRevealed]" "neighbors demoFinal = [''ESP'', ''DEU'']"
  "submitted demoFinal" "revealed demoFinal" "score demoFinal = 0"
  "correctGuesses demoFinal = {''ESP'', ''DEU''}" "userCorrectGuesses demoFinal = {''ESP''}"
  by (simp_all add: demoFinal_def demoStart_def)

lemma demo_known: "set (neighbors demoGuessed) \<subseteq> fst ` set (countriesData demo)"
  by (simp add: demo_guessed_facts demo_def demoCountries_def)

lemma correctCodes_Nil [simp]: "correctCodes [] = {}"
  by (simp add: correctCodes_def)

lemma incorrectCodes_Nil [simp]: "incorrectCodes [] = {}"
  by (simp add: incorrectCodes_def)

lemma missedNeighbors_filter:
  "missedNeighbors s = set (filter (\<lambda>cd. cd \<notin> guessCodes (guesses s)) (neighbors s))"
  by (auto simp: missedNeighbors_def)



lemma demo_find_Spain_again:
  "c_code spain \<in> guessCodes (guesses demoGuessed)"
  by (simp add: demo_guessed_facts guessCodes_def spainGuess_def spain_def)


lemma demo_submit_again:
  "submit demo demoFinal =
     (demoFinal\<lparr> lastRoundGains := 0, lastRoundLosses := 0 \<rparr>,
      Inr \<lparr> res_gains = 0, res_losses = 0, totalCorrect = 2, totalNeighbors = 2,
            isComplete = True \<rparr>)"
  by (simp add: submit_def demoStart_def demoFinal_def spainGuess_def
      germanyRevealed_def demo_data)

lemma demo_find_Germany: "findCountryByName latin1 (ustr ''Germany'') (Some (countriesData demo)) = Some germany"
  by (simp add: findCountryByName_def demo_data demo_norm aliasMatches_def)

lemma demo_add_Germany:
  "addGuess latin1 demo (ustr ''Germany'') demoGuessed = (demoBoth, Inr (germany, True))"
proof -
  have "c_code germany \<notin> guessCodes (guesses demoGuessed)"
    by (simp add: demo_guessed_facts guessCodes_def spainGuess_def germany_def)
  from addGuess_fresh[OF demo_find_Germany this] show ?thesis
    by (simp add: demoBoth_def demoGuessed_def demoStart_def germanyGuess_def germany_def)
qed

lemma demo_submit_both:
  "submit demo demoBoth =
     (demoBothFinal, Inr \<lparr> res_gains = 2, res_losses = 0, totalCorrect = 2, totalNeighbors = 2,
                           isComplete = True \<rparr>)"
  by (simp add: submit_def demoBoth_def demoStart_def demoBothFinal_def spainGuess_def
      germanyGuess_def demo_data insert_commute)

lemma demo_remove_Spain: "removeGuess ''ESP'' demoBothFinal = (demoRemoved, True)"
  by (simp add: removeGuess_def demoBothFinal_def demoRemoved_def demoStart_def spainGuess_def)

lemma demo_resubmit:
  "submit demo demoRemoved =
     (demoResubmitted, Inr \<lparr> res_gains = 0, res_losses = 1, totalCorrect = 2, totalNeighbors = 2,
                             isComplete = True \<rparr>)"
  by (simp add: submit_def demoRemoved_def demoBothFinal_def demoResubmitted_def demoStart_def
      germanyGuess_def spainRevealed_def demo_data insert_commute)

lemma demo_played: "played latin1 demo [''ESP'', ''DEU''] demoResubmitted"
proof -
  have "played latin1 demo [] reset" by (rule p_new)
  then have "played latin1 demo [] demoStart"
    by (rule p_start[where rnd = 0]) (simp_all add: demo_candidates demo_start)
  from p_add[OF this demo_add_Spain] have "played latin1 demo [''ESP''] demoGuessed"
    by (simp add: spain_def)
  from p_add[OF this demo_add_Germany] have "played latin1 demo [''ESP'', ''DEU''] demoBoth"
    by (simp add: germany_def)
  then have "played latin1 demo [''ESP'', ''DEU''] (fst (submit demo demoBoth))" by (rule p_submit)
  then have "played latin1 demo [''ESP'', ''DEU''] demoBothFinal" by (simp add: demo_submit_both)
  then have "played latin1 demo [''ESP'', ''DEU''] (fst (removeGuess ''ESP'' demoBothFinal))"
    by (rule p_remove)
  then have "played latin1 demo [''ESP'', ''DEU''] demoRemoved" by (simp add: demo_remove_Spain)
  then have "played latin1 demo [''ESP'', ''DEU''] (fst (submit demo demoRemoved))" by (rule p_submit)
  then show ?thesis by (simp add: demo_resubmit)
qed

lemma gap_start: "startNewRound gapDirectory 0 reset = Inr gapStart"
proof -
  have cands: "getCountriesWithNeighbors (Some (countriesData gapDirectory))
      (Some (neighborsData gapDirectory)) = [france, spain]"
    by (simp add: getCountriesWithNeighbors_def gapDirectory_def List.map_filter_def)
  have c: "getRandomCountryWithNeighbors gapDirectory 0 = Some france"
    by (simp add: getRandomCountryWithNeighbors_def cands Let_def)
  have k: "c_code france = ''FRA''" by (simp add: france_def)
  have n: "getNeighbors gapDirectory ''FRA'' = [''ESP'', ''AND'']"
    by (simp add: getNeighbors_def gapDirectory_def)
  have nc: "toNeighborCountry (countriesData gapDirectory) ''ESP'' =
        \<lparr> n_code = ''ESP'', n_name = Some (ustr ''Spain''), n_aliases = Some [ustr ''Espana''] \<rparr>"
      "toNeighborCountry (countriesData gapDirectory) ''AND'' =
        \<lparr> n_code = ''AND'', n_name = None, n_aliases = None \<rparr>"
    by (simp_all add: toNeighborCountry_def gapDirectory_def spain_def)
  show ?thesis
    by (simp add: startNewRound_def c k n nc reset_def gapStart_def)
qed

lemma gap_guessing: "guessing latin1 gapDirectory gapGuessed"
proof -
  have cands: "getCountriesWithNeighbors (Some (countriesData gapDirectory))
      (Some (neighborsData gapDirectory)) = [france, spain]"
    by (simp add: getCountriesWithNeighbors_def gapDirectory_def List.map_filter_def)
  have f: "findCountryByName latin1 (ustr ''Spain'') (Some (countriesData gapDirectory)) = Some spain"
    by (simp add: findCountryByName_def gapDirectory_def france_def spain_def demo_norm
        aliasMatches_def)
  have n: "c_code spain \<notin> guessCodes (guesses gapStart)"
    by (simp add: gapStart_def guessCodes_def)
  have a: "addGuess latin1 gapDirectory (ustr ''Spain'') gapStart = (gapGuessed, Inr (spain, True))"
    using addGuess_fresh[OF f n]
    by (simp add: gapGuessed_def gapStart_def spainGuess_def spain_def)
  have "guessing latin1 gapDirectory gapStart"
    by (rule g_start[where rnd = 0 and ?s0.0 = reset]) (simp_all add: cands gap_start)
  then have "guessing latin1 gapDirectory (fst (addGuess latin1 gapDirectory (ustr ''Spain'') gapStart))"
    by (rule g_add)
  then show ?thesis by (simp add: a)
qed

lemma gap_submit:
  "submit gapDirectory gapGuessed =
     (gapFinal, Inr \<lparr> res_gains = 1, res_losses = 1, totalCorrect = 2, totalNeighbors = 2,
                      isComplete = True \<rparr>)"
  by (simp add: submit_def gapGuessed_def gapStart_def gapFinal_def spainGuess_def
      gapDirectory_def france_def spain_def insert_commute)

lemma gap_submit_again:
  "submit gapDirectory gapFinal =
     (gapFinal\<lparr> score := - 1, lastRoundGains := 0, lastRoundLosses := 1 \<rparr>,
      Inr \<lparr> res_gains = 0, res_losses = 1, totalCorrect = 2, totalNeighbors = 2,
            isComplete = True \<rparr>)"
  by (simp add: submit_def gapStart_def gapFinal_def spainGuess_def
      gapDirectory_def france_def spain_def insert_commute)



lemma norm_an: "normalizeName latin1 (ustr ''an'') = [97, 110]"
  by (simp add: latin1_eval)

lemma norm_c: "normalizeName latin1 (ustr ''c'') = [99]"
  by (simp add: latin1_eval)

lemma norm_empty: "normalizeName latin1 [] = []"
  by (simp add: latin1_eval)

lemma norm_Congo:
  "normalizeName latin1 (ustr ''Dem. Rep. Congo'')
     = [100, 101, 109, 32, 114, 101, 112, 32, 99, 111, 110, 103, 111]"
  by (simp add: latin1_eval)

lemma norm_Czech:
  "normalizeName latin1 (ustr ''Czech Republic'')
     = [99, 122, 101, 99, 104, 32, 114, 101, 112, 117, 98, 108, 105, 99]"
  by (simp add: latin1_eval)

lemma ustr_nonempty: "ustr ''an'' \<noteq> []" "ustr ''c'' \<noteq> []"
  by (simp_all add: ustr_def)

lemma demo_search_an:
  "map r_code (searchCountries latin1 (Some demoCountries) (ustr ''an'') [''DEU''])
     = [''ESP'', ''FRA'', ''ISL'']"
  by (simp add: searchCountries_def ustr_nonempty norm_an demoCountries_def france_def spain_def
      germany_def ivoryCoast_def iceland_def demo_norm aliasIncludes_def sortWith_def
      compareResults_def Let_def)

section \<open>The claims\<close>

text \<open>
  Claim C1. For a round in the state Guessing with at least one guess, over tables in
  which every code of a neighbor list has an entry in the country table, \<^verbatim>\<open>submit\<close>
  succeeds, reports \<^verbatim>\<open>totalCorrect\<close> equal to the size of the answer set, and afterwards
  every code of the answer set has a correct guess in the guess list, which the
  finalized round locks.
\<close>

theorem submit_resolves_round:
  assumes "guessing b d s" and "guesses s \<noteq> []"
    and "\<forall>(cd, ns) \<in> set (neighborsData d). set ns \<subseteq> fst ` set (countriesData d)"
  shows "\<exists>r. snd (submit d s) = Inr r
      \<and> totalCorrect r = card (set (neighbors s))
      \<and> submitted (fst (submit d s))
      \<and> (\<forall>cd \<in> set (neighbors s).
            \<exists>g \<in> set (guesses (fst (submit d s))).
              g_code g = cd \<and> g_correct g \<and> isLocked (fst (submit d s)) g)"
proof -
  let ?s' = "fst (submit d s)"
  note inv = guessing_invariant[OF assms(1)]
  from submit_counts[OF assms(2), of d] obtain r where
    r: "snd (submit d s) = Inr r" and tc: "totalCorrect r = card (correctGuesses ?s')"
    by blast
  have total: "totalCorrect r = card (set (neighbors s))"
    using tc guessing_submit_correct[OF assms(1,2)] by simp
  from submit_guesses(1)[OF assms(2), of d] obtain ext where
    ext: "guesses ?s' = guesses s @ ext"
    and extp: "\<forall>g \<in> set ext. g_correct g \<and> g_revealed g \<and> g_code g \<in> missedNeighbors s"
    by blast
  have known: "set (neighbors s) \<subseteq> fst ` set (countriesData d)"
    by (rule guessing_neighbors_known[OF assms(1,3)])
  have cover: "\<exists>g \<in> set (guesses ?s'). g_code g = cd \<and> g_correct g \<and> isLocked ?s' g"
    if cd: "cd \<in> set (neighbors s)" for cd
  proof (cases "cd \<in> guessCodes (guesses s)")
    case True
    then obtain g where g: "g \<in> set (guesses s)" "g_code g = cd"
      by (auto simp: guessCodes_def)
    with inv cd have "g_correct g" by simp
    moreover have "g \<in> set (guesses ?s')" using g(1) ext by simp
    ultimately show ?thesis
      using g(2) submit_frame(2)[OF assms(2), of d] by (auto simp: isLocked_def)
  next
    case False
    from cd known have "map_of (countriesData d) cd \<noteq> None"
      by (auto simp: map_of_eq_None_iff)
    with cd False have "cd \<in> guessCodes (guesses ?s')"
      unfolding submit_guesses(2)[OF assms(2)] by (simp add: missedNeighbors_def)
    then obtain g where g: "g \<in> set (guesses ?s')" "g_code g = cd"
      by (auto simp: guessCodes_def)
    with False ext have "g \<in> set ext" by (auto simp: guessCodes_def)
    with extp have "g_correct g" by simp
    then show ?thesis
      using g submit_frame(2)[OF assms(2), of d] by (auto simp: isLocked_def)
  qed
  from r total cover submit_frame(2)[OF assms(2), of d] show ?thesis by blast
qed

text \<open>
  The round on France of the example directory, after the guess Spain: Germany is
  revealed by \<^verbatim>\<open>submit\<close>.
\<close>

theorem submit_resolves_round_witness:
  "guessing latin1 demo demoGuessed \<and> guesses demoGuessed \<noteq> []
   \<and> (\<exists>r. snd (submit demo demoGuessed) = Inr r \<and> totalCorrect r = 2)
   \<and> submitted (fst (submit demo demoGuessed))
   \<and> (\<exists>g \<in> set (guesses (fst (submit demo demoGuessed))).
         g_code g = ''DEU'' \<and> g_correct g \<and> isLocked (fst (submit demo demoGuessed)) g)"
proof -
  have h1: "guessing latin1 demo demoGuessed" by (rule demo_guessing)
  have h2: "guesses demoGuessed \<noteq> []" by (simp add: demo_guessed_facts)
  have h3: "\<forall>(cd, ns) \<in> set (neighborsData demo). set ns \<subseteq> fst ` set (countriesData demo)"
    by (simp add: demo_def demoNeighbors_def demoCountries_def)
  from submit_resolves_round[OF h1 h2 h3] obtain r where
    r: "snd (submit demo demoGuessed) = Inr r" "totalCorrect r = card (set (neighbors demoGuessed))"
    and f: "submitted (fst (submit demo demoGuessed))"
    and c: "\<forall>cd \<in> set (neighbors demoGuessed).
            \<exists>g \<in> set (guesses (fst (submit demo demoGuessed))).
              g_code g = cd \<and> g_correct g \<and> isLocked (fst (submit demo demoGuessed)) g"
    by blast
  have "totalCorrect r = 2" using r(2) by (simp add: demo_guessed_facts)
  moreover have "''DEU'' \<in> set (neighbors demoGuessed)" by (simp add: demo_guessed_facts)
  ultimately show ?thesis using h1 h2 r(1) f c by blast
qed




text \<open>
  Claim C3, as the code has it. \<^verbatim>\<open>removeGuess\<close> looks at neither the round state nor
  the guess: whenever a guess with the code exists, locked or not, it deletes the first
  such guess and returns true; when none exists it returns false and leaves the state
  as it is. The lock is kept by ui.js, which offers no remove control for a locked
  chip.
\<close>

theorem removeGuess_ignores_lock:
  "(cd \<in> guessCodes (guesses s) \<longrightarrow>
      (\<exists>pre g post. guesses s = pre @ g # post \<and> g_code g = cd \<and> cd \<notin> guessCodes pre
         \<and> removeGuess cd s = (s\<lparr> guesses := pre @ post \<rparr>, True)))
   \<and> (cd \<notin> guessCodes (guesses s) \<longrightarrow> removeGuess cd s = (s, False))
   \<and> (g \<in> set (guesses s) \<and> isLocked s g \<longrightarrow>
        snd (removeGuess (g_code g) s) = True
        \<and> Suc (length (guesses (fst (removeGuess (g_code g) s)))) = length (guesses s)
        \<and> (distinct (map g_code (guesses s)) \<longrightarrow>
              g \<notin> set (guesses (fst (removeGuess (g_code g) s)))))"
  using removeGuess_present[of cd s] removeGuess_absent[of cd s] removeGuess_locked[of g s]
  by blast

text \<open>
  On the finalized example round: the locked guess Spain is removed, and a code
  without a guess is answered with false.
\<close>

theorem removeGuess_ignores_lock_witness:
  "''ESP'' \<in> guessCodes (guesses demoFinal)
   \<and> removeGuess ''ESP'' demoFinal = (demoFinal\<lparr> guesses := [germanyRevealed] \<rparr>, True)
   \<and> ''ISL'' \<notin> guessCodes (guesses demoFinal)
   \<and> removeGuess ''ISL'' demoFinal = (demoFinal, False)"
proof -
  have p: "''ESP'' \<in> guessCodes (guesses demoFinal)"
    by (simp add: demo_final_facts guessCodes_def spainGuess_def)
  have a: "''ISL'' \<notin> guessCodes (guesses demoFinal)"
    by (simp add: demo_final_facts guessCodes_def spainGuess_def germanyRevealed_def)
  from removeGuess_ignores_lock[of "''ESP''" demoFinal spainGuess] p obtain pre g post where
    sp: "guesses demoFinal = pre @ g # post" "g_code g = ''ESP''" "''ESP'' \<notin> guessCodes pre"
    and r: "removeGuess ''ESP'' demoFinal = (demoFinal\<lparr> guesses := pre @ post \<rparr>, True)"
    by blast
  have "pre = []"
  proof (cases pre)
    case Nil
    then show ?thesis .
  next
    case (Cons x xs)
    with sp(1) have "x = spainGuess" by (simp add: demo_final_facts)
    with Cons sp(3) show ?thesis by (simp add: guessCodes_def spainGuess_def)
  qed
  with sp(1) have "post = [germanyRevealed]" by (simp add: demo_final_facts)
  with \<open>pre = []\<close> r have "removeGuess ''ESP'' demoFinal = (demoFinal\<lparr> guesses := [germanyRevealed] \<rparr>, True)"
    by simp
  moreover from removeGuess_ignores_lock[of "''ISL''" demoFinal spainGuess] a
  have "removeGuess ''ISL'' demoFinal = (demoFinal, False)" by blast
  ultimately show ?thesis using p a by blast
qed

text \<open>
  The claim as stated fails on the finalized example round: the guess Spain is correct
  and locked, and \<^verbatim>\<open>removeGuess\<close> returns true and deletes it.
\<close>

theorem removeGuess_locked_counterexample:
  "submit demo demoGuessed =
     (demoFinal, Inr \<lparr> res_gains = 1, res_losses = 1, totalCorrect = 2, totalNeighbors = 2,
                       isComplete = True \<rparr>)
   \<and> spainGuess \<in> set (guesses demoFinal)
   \<and> submitted demoFinal \<and> g_correct spainGuess \<and> isLocked demoFinal spainGuess
   \<and> snd (removeGuess (g_code spainGuess) demoFinal) = True
   \<and> spainGuess \<notin> set (guesses (fst (removeGuess (g_code spainGuess) demoFinal)))"
  by (simp add: demo_submit demo_final_facts isLocked_def removeGuess_def spainGuess_def
      germanyRevealed_def)

text \<open>
  Claim C4, as the code has it. \<^verbatim>\<open>addGuess\<close> does not look at the round state: on a
  round finalized by \<^verbatim>\<open>submit\<close> it behaves as in the state Guessing. It fails when the
  name does not resolve or the code already has a guess, and otherwise appends the
  guess and succeeds. ui.js disables the input once the round is revealed.
\<close>

theorem addGuess_ignores_round_state:
  assumes "guesses s0 \<noteq> []" and "s = fst (submit d s0)"
  shows "submitted s \<and> revealed s
    \<and> (findCountryByName b nm (Some (countriesData d)) = None \<longrightarrow>
          addGuess b d nm s = (s, Inl CountryNotFound))
    \<and> (\<forall>c. findCountryByName b nm (Some (countriesData d)) = Some c \<longrightarrow>
          (if c_code c \<in> guessCodes (guesses s) then addGuess b d nm s = (s, Inl AlreadyGuessed)
           else addGuess b d nm s =
             (s\<lparr> guesses := guesses s @
                   [\<lparr> g_code = c_code c, g_name = c_name c,
                      g_correct = (c_code c \<in> set (neighbors s)), g_revealed = False \<rparr>] \<rparr>,
              Inr (c, c_code c \<in> set (neighbors s)))))"
  using submit_frame(2,3)[OF assms(1), of d] assms(2)
  by (simp add: addGuess_not_found addGuess_duplicate addGuess_fresh)

text \<open>
  On the finalized example round the guess Iceland is appended.
\<close>

theorem addGuess_ignores_round_state_witness:
  "guesses demoGuessed \<noteq> [] \<and> demoFinal = fst (submit demo demoGuessed)
   \<and> submitted demoFinal \<and> revealed demoFinal
   \<and> findCountryByName latin1 (ustr ''Iceland'') (Some (countriesData demo)) = Some iceland
   \<and> addGuess latin1 demo (ustr ''Iceland'') demoFinal =
        (demoFinal\<lparr> guesses := [spainGuess, germanyRevealed, icelandGuess] \<rparr>,
         Inr (iceland, False))"
proof -
  have h1: "guesses demoGuessed \<noteq> []" by (simp add: demo_guessed_facts)
  have h2: "demoFinal = fst (submit demo demoGuessed)" by (simp add: demo_submit)
  have n: "c_code iceland \<notin> guessCodes (guesses demoFinal)"
    by (simp add: demo_final_facts guessCodes_def spainGuess_def germanyRevealed_def iceland_def)
  from addGuess_ignores_round_state[OF h1 h2, of latin1 "ustr ''Iceland''"] demo_find_Iceland n
  have "submitted demoFinal \<and> revealed demoFinal
    \<and> addGuess latin1 demo (ustr ''Iceland'') demoFinal =
             (demoFinal\<lparr> guesses := guesses demoFinal @
                   [\<lparr> g_code = c_code iceland, g_name = c_name iceland,
                      g_correct = (c_code iceland \<in> set (neighbors demoFinal)),
                      g_revealed = False \<rparr>] \<rparr>,
              Inr (iceland, c_code iceland \<in> set (neighbors demoFinal)))"
    by simp
  then show ?thesis using h1 h2 demo_find_Iceland
    by (simp add: demo_final_facts icelandGuess_def iceland_def)
qed

text \<open>
  The claim as stated fails on the finalized example round: \<^verbatim>\<open>addGuess\<close> succeeds
  and the guess list grows.
\<close>

theorem addGuess_finalized_counterexample:
  "fst (submit demo demoGuessed) = demoFinal \<and> submitted demoFinal
   \<and> snd (addGuess latin1 demo (ustr ''Iceland'') demoFinal) = Inr (iceland, False)
   \<and> length (guesses demoFinal) = 2
   \<and> length (guesses (fst (addGuess latin1 demo (ustr ''Iceland'') demoFinal))) = 3"
proof -
  have n: "c_code iceland \<notin> guessCodes (guesses demoFinal)"
    by (simp add: demo_final_facts guessCodes_def spainGuess_def germanyRevealed_def iceland_def)
  show ?thesis
    by (simp add: demo_submit addGuess_fresh[OF demo_find_Iceland n] demo_final_facts iceland_def)
qed

text \<open>
  Claim C5. \<^verbatim>\<open>addGuess\<close> with a name that does not resolve fails with
  \<^verbatim>\<open>'Country not found'\<close>, \<^verbatim>\<open>addGuess\<close> with a code that already has a guess fails with
  \<^verbatim>\<open>'Already guessed'\<close>, \<^verbatim>\<open>submit\<close> with no guess fails with \<^verbatim>\<open>'No guesses to submit'\<close>,
  and every failing \<^verbatim>\<open>addGuess\<close> or \<^verbatim>\<open>submit\<close> returns the state it was given: guess
  list, score and round flags are unchanged.
\<close>

theorem failed_commands_preserve_state:
  "(findCountryByName b nm (Some (countriesData d)) = None \<longrightarrow>
      addGuess b d nm s = (s, Inl CountryNotFound))
   \<and> (\<forall>c. findCountryByName b nm (Some (countriesData d)) = Some c
          \<and> c_code c \<in> guessCodes (guesses s) \<longrightarrow>
        addGuess b d nm s = (s, Inl AlreadyGuessed))
   \<and> (guesses s = [] \<longrightarrow> submit d s = (s, Inl NoGuessesToSubmit))
   \<and> (\<forall>e. snd (addGuess b d nm s) = Inl e \<longrightarrow> fst (addGuess b d nm s) = s)
   \<and> (\<forall>e. snd (submit d s) = Inl e \<longrightarrow> fst (submit d s) = s)"
proof -
  have add: "fst (addGuess b d nm s) = s" if "snd (addGuess b d nm s) = Inl e" for e
    using that by (auto simp: addGuess_def Let_def split: option.splits if_splits)
  have sub: "fst (submit d s) = s" if "snd (submit d s) = Inl e" for e
  proof (cases "guesses s = []")
    case True
    then show ?thesis by (simp add: submit_empty)
  next
    case False
    from submit_counts[OF False, of d] that show ?thesis by auto
  qed
  show ?thesis
    using add sub by (simp add: addGuess_not_found addGuess_duplicate submit_empty)
qed

text \<open>
  The three failures on the example round.
\<close>

theorem failed_commands_preserve_state_witness:
  "findCountryByName latin1 (ustr ''Atlantis'') (Some (countriesData demo)) = None
   \<and> addGuess latin1 demo (ustr ''Atlantis'') demoGuessed = (demoGuessed, Inl CountryNotFound)
   \<and> findCountryByName latin1 (ustr ''Spain'') (Some (countriesData demo)) = Some spain
   \<and> c_code spain \<in> guessCodes (guesses demoGuessed)
   \<and> addGuess latin1 demo (ustr ''Spain'') demoGuessed = (demoGuessed, Inl AlreadyGuessed)
   \<and> guesses demoStart = []
   \<and> submit demo demoStart = (demoStart, Inl NoGuessesToSubmit)"
proof -
  have e: "guesses demoStart = []" by (simp add: demoStart_def)
  from failed_commands_preserve_state[of latin1 "ustr ''Atlantis''" demo demoGuessed]
    demo_find_Atlantis
  have 1: "addGuess latin1 demo (ustr ''Atlantis'') demoGuessed = (demoGuessed, Inl CountryNotFound)"
    by blast
  from failed_commands_preserve_state[of latin1 "ustr ''Spain''" demo demoGuessed]
    demo_find_Spain demo_find_Spain_again
  have 2: "addGuess latin1 demo (ustr ''Spain'') demoGuessed = (demoGuessed, Inl AlreadyGuessed)"
    by blast
  from failed_commands_preserve_state[of latin1 "ustr ''Spain''" demo demoStart] e
  have 3: "submit demo demoStart = (demoStart, Inl NoGuessesToSubmit)"
    by blast
  from 1 2 3 e demo_find_Atlantis demo_find_Spain demo_find_Spain_again show ?thesis by blast
qed



text \<open>
  Claim C7, as the code has it. The empty query is answered with the empty list. For
  every non-empty query, \<^verbatim>\<open>searchCountries\<close> returns exactly the entries of the table
  whose key is not excluded and whose normalised name or some normalised alias contains
  the normalised query, each once; the results with a normalised name equal to the
  normalised query come first, and within either group the results are in ascending
  order of the length of the normalised name.
\<close>

theorem searchCountries_result:
  "searchCountries b (Some tbl) [] excl = []
   \<and> (query \<noteq> [] \<longrightarrow>
        mset (searchCountries b (Some tbl) query excl) =
          mset (map (toResult b (normalizeName b query))
                 (filter (\<lambda>e. fst e \<notin> set excl \<and> matchesQuery b (normalizeName b query) (snd e)) tbl))
        \<and> sorted_wrt (rankedBefore b (normalizeName b query))
             (searchCountries b (Some tbl) query excl)
        \<and> (\<forall>r \<in> set (searchCountries b (Some tbl) query excl). r_code r \<notin> set excl))"
proof -
  have e: "searchCountries b (Some tbl) [] excl = []" by (simp add: searchCountries_def)
  {
    assume q: "query \<noteq> []"
    let ?n = "normalizeName b query"
    have s: "searchCountries b (Some tbl) query excl =
        sortWith (compareResults b ?n) (collectMatches b ?n excl tbl)"
      using q by (simp add: searchCountries_def Let_def)
    have m: "mset (searchCountries b (Some tbl) query excl) =
          mset (map (toResult b ?n)
                 (filter (\<lambda>e. fst e \<notin> set excl \<and> matchesQuery b ?n (snd e)) tbl))"
      unfolding s by (simp add: mset_sortWith collectMatches_filter)
    have o: "sorted_wrt (rankedBefore b ?n) (searchCountries b (Some tbl) query excl)"
      unfolding s by (rule sorted_search)
    have "set (searchCountries b (Some tbl) query excl) =
        set (map (toResult b ?n)
                 (filter (\<lambda>e. fst e \<notin> set excl \<and> matchesQuery b ?n (snd e)) tbl))"
      using arg_cong[OF m, of set_mset] by simp
    then have x: "\<forall>r \<in> set (searchCountries b (Some tbl) query excl). r_code r \<notin> set excl"
      by (auto simp: toResult_def)
    note m o x
  }
  with e show ?thesis by blast
qed

text \<open>
  The query "an" on the example table, with one country excluded.
\<close>

theorem searchCountries_result_witness:
  "ustr ''an'' \<noteq> []
   \<and> map r_code (searchCountries latin1 (Some demoCountries) (ustr ''an'') [''DEU''])
       = [''ESP'', ''FRA'', ''ISL'']
   \<and> sorted_wrt (rankedBefore latin1 (normalizeName latin1 (ustr ''an'')))
        (searchCountries latin1 (Some demoCountries) (ustr ''an'') [''DEU''])
   \<and> ''DEU'' \<notin> r_code ` set (searchCountries latin1 (Some demoCountries) (ustr ''an'') [''DEU''])"
proof -
  from searchCountries_result[of latin1 demoCountries "[''DEU'']" "ustr ''an''"] ustr_nonempty(1)
  have s: "sorted_wrt (rankedBefore latin1 (normalizeName latin1 (ustr ''an'')))
        (searchCountries latin1 (Some demoCountries) (ustr ''an'') [''DEU''])"
    and x: "\<forall>r \<in> set (searchCountries latin1 (Some demoCountries) (ustr ''an'') [''DEU'']).
        r_code r \<notin> set [''DEU'']"
    by blast+
  from x have "''DEU'' \<notin> r_code ` set (searchCountries latin1 (Some demoCountries) (ustr ''an'') [''DEU''])"
    by auto
  with s ustr_nonempty(1) demo_search_an show ?thesis by blast
qed

text \<open>
  The claim as stated fails twice. The empty query returns nothing although its
  normalisation is contained in every name. And the order follows the length of the
  normalised name, not of the canonical name: "Dem. Rep. Congo" (15 code units, 13
  normalised) comes before "Czech Republic" (14 code units).
\<close>

theorem searchCountries_counterexample:
  "searchCountries latin1 (Some demoCountries) [] [] = []
   \<and> (''FRA'', france) \<in> set demoCountries
   \<and> jsIncludes (normalizeName latin1 (c_name france)) (normalizeName latin1 [])
   \<and> map r_name (searchCountries latin1 (Some orderTable) (ustr ''c'') [])
       = [ustr ''Dem. Rep. Congo'', ustr ''Czech Republic'']
   \<and> normalizeName latin1 (ustr ''Dem. Rep. Congo'') \<noteq> normalizeName latin1 (ustr ''c'')
   \<and> normalizeName latin1 (ustr ''Czech Republic'') \<noteq> normalizeName latin1 (ustr ''c'')
   \<and> length (ustr ''Dem. Rep. Congo'') = 15
   \<and> length (ustr ''Czech Republic'') = 14"
proof -
  have a: "searchCountries latin1 (Some demoCountries) [] [] = []"
    by (simp add: searchCountries_def)
  have b: "(''FRA'', france) \<in> set demoCountries" by (simp add: demoCountries_def)
  have c: "jsIncludes (normalizeName latin1 (c_name france)) (normalizeName latin1 [])"
    by (simp add: france_def norm_France norm_empty)
  have d: "map r_name (searchCountries latin1 (Some orderTable) (ustr ''c'') [])
       = [ustr ''Dem. Rep. Congo'', ustr ''Czech Republic'']"
    by (simp add: searchCountries_def ustr_nonempty norm_c orderTable_def congo_def czechia_def
        norm_Congo norm_Czech aliasIncludes_def sortWith_def compareResults_def Let_def)
  have e: "normalizeName latin1 (ustr ''Dem. Rep. Congo'') \<noteq> normalizeName latin1 (ustr ''c'')"
    "normalizeName latin1 (ustr ''Czech Republic'') \<noteq> normalizeName latin1 (ustr ''c'')"
    by (simp_all add: norm_Congo norm_Czech norm_c)
  have f: "length (ustr ''Dem. Rep. Congo'') = 15" "length (ustr ''Czech Republic'') = 14"
    by (simp_all add: ustr_def)
  from a b c d e f show ?thesis by blast
qed



text \<open>
  Claim C9, as the code has it. When every code of the answer set has an entry in the
  country table, a second \<^verbatim>\<open>submit\<close> right after a successful one succeeds, reports no
  gains and no losses, and leaves the score as it is.
\<close>

theorem double_submit_idempotent:
  assumes "guesses s \<noteq> []"
    and "set (neighbors s) \<subseteq> fst ` set (countriesData d)"
  shows "\<exists>r. snd (submit d (fst (submit d s))) = Inr r
      \<and> res_gains r = 0 \<and> res_losses r = 0
      \<and> score (fst (submit d (fst (submit d s)))) = score (fst (submit d s))"
proof -
  let ?s1 = "fst (submit d s)"
  from submit_guesses(1)[OF assms(1), of d] obtain ext where
    ext: "guesses ?s1 = guesses s @ ext"
    and extp: "\<forall>g \<in> set ext. g_correct g \<and> g_revealed g \<and> g_code g \<in> missedNeighbors s"
    by blast
  have ne: "guesses ?s1 \<noteq> []" using ext assms(1) by simp
  have n1: "neighbors ?s1 = neighbors s" by (rule submit_frame(1)[OF assms(1)])
  have known: "distinct (neighbors ?s1) \<or> set (neighbors ?s1) \<subseteq> fst ` set (countriesData d)"
    using assms(2) n1 by simp
  have extc: "correctCodes ext \<subseteq> missedNeighbors s" using extp by (auto simp: correctCodes_def)
  have exti: "incorrectCodes ext = {}" using extp by (auto simp: incorrectCodes_def)
  have "correctCodes (guesses ?s1) \<subseteq> correctGuesses ?s1"
    unfolding submit_sets(1)[OF assms(1)] ext using extc by auto
  then have g0: "correctCodes (guesses ?s1) - correctGuesses ?s1 = {}" by auto
  have "incorrectCodes (guesses ?s1) \<subseteq> incorrectGuesses ?s1"
    unfolding submit_sets(3)[OF assms(1)] ext using exti by auto
  then have i0: "incorrectCodes (guesses ?s1) - incorrectGuesses ?s1 = {}" by auto
  have "map_of (countriesData d) cd \<noteq> None" if "cd \<in> set (neighbors s)" for cd
    using that assms(2) by (auto simp: map_of_eq_None_iff)
  then have "set (neighbors s) \<subseteq> guessCodes (guesses ?s1)"
    unfolding submit_guesses(2)[OF assms(1)] by (auto simp: missedNeighbors_def)
  then have m0: "missedNeighbors ?s1 = {}" using n1 by (auto simp: missedNeighbors_def)
  from submit_counts[OF ne, of d] known obtain r where
    "snd (submit d ?s1) = Inr r"
    "score (fst (submit d ?s1)) = score ?s1 + (int (res_gains r) - int (res_losses r))"
    "res_gains r = card (correctCodes (guesses ?s1) - correctGuesses ?s1)"
    "res_losses r = card (incorrectCodes (guesses ?s1) - incorrectGuesses ?s1)
                      + card (missedNeighbors ?s1)"
    by blast
  then show ?thesis using g0 i0 m0 by simp
qed

text \<open>
  Two submits of the example round.
\<close>

theorem double_submit_idempotent_witness:
  "guesses demoGuessed \<noteq> [] \<and> set (neighbors demoGuessed) \<subseteq> fst ` set (countriesData demo)
   \<and> snd (submit demo (fst (submit demo demoGuessed))) =
       Inr \<lparr> res_gains = 0, res_losses = 0, totalCorrect = 2, totalNeighbors = 2,
             isComplete = True \<rparr>
   \<and> score (fst (submit demo (fst (submit demo demoGuessed)))) = score (fst (submit demo demoGuessed))"
proof -
  have h1: "guesses demoGuessed \<noteq> []" by (simp add: demo_guessed_facts)
  from double_submit_idempotent[OF h1 demo_known] h1 demo_known show ?thesis
    by (simp add: demo_submit demo_submit_again)
qed

text \<open>
  The claim as stated fails when a neighbor code has no entry in the country table:
  \<^verbatim>\<open>submit\<close> counts the missed neighbor but pushes no guess for it, so the second
  \<^verbatim>\<open>submit\<close> counts it again and the score drops by one.
\<close>

theorem double_submit_counterexample:
  "guessing latin1 gapDirectory gapGuessed
   \<and> submit gapDirectory gapGuessed =
       (gapFinal, Inr \<lparr> res_gains = 1, res_losses = 1, totalCorrect = 2, totalNeighbors = 2,
                        isComplete = True \<rparr>)
   \<and> snd (submit gapDirectory gapFinal) =
       Inr \<lparr> res_gains = 0, res_losses = 1, totalCorrect = 2, totalNeighbors = 2,
             isComplete = True \<rparr>
   \<and> score gapFinal = 0
   \<and> score (fst (submit gapDirectory gapFinal)) = - 1"
proof -
  have z: "score gapFinal = 0" by (simp add: gapFinal_def gapStart_def)
  from gap_guessing z show ?thesis by (simp add: gap_submit gap_submit_again)
qed

text \<open>
  Claim C10. \<^verbatim>\<open>played b d issued s\<close> says that the public methods lead from a fresh
  \<^verbatim>\<open>GameState\<close> to \<^verbatim>\<open>s\<close> and that \<^verbatim>\<open>issued\<close> lists the codes of the guesses that
  \<^verbatim>\<open>addGuess\<close> accepted since the round of \<^verbatim>\<open>s\<close> began; every reachable state is played
  with some such list. In every played state, so after any number of calls of \<^verbatim>\<open>submit\<close>,
  \<^verbatim>\<open>removeGuess\<close>, \<^verbatim>\<open>addGuess\<close> and \<^verbatim>\<open>reveal\<close> in any order, every code counted by
  \<^verbatim>\<open>getState().progress.found\<close> is a neighbor code that the player issued, \<^verbatim>\<open>found\<close> is at
  most the number of issued guesses and at most \<^verbatim>\<open>correctCount\<close>, and the code of every
  guess with the \<^verbatim>\<open>revealed\<close> mark is in \<^verbatim>\<open>correctGuesses\<close>.

  Every successful \<^verbatim>\<open>submit\<close>, from any state, adds to \<^verbatim>\<open>userCorrectGuesses\<close> exactly
  the codes of the correct guesses of the list that were not yet counted; the guesses it
  synthesizes carry the \<^verbatim>\<open>revealed\<close> mark, their codes enter \<^verbatim>\<open>correctGuesses\<close>, and
  none of them is among the codes added to \<^verbatim>\<open>userCorrectGuesses\<close>. After the first
  \<^verbatim>\<open>submit\<close> of a round, moreover, \<^verbatim>\<open>found\<close> is the number of distinct correct codes
  among the guesses of the list, the guesses without the \<^verbatim>\<open>revealed\<close> mark are exactly
  those guesses, no revealed guess has its code in \<^verbatim>\<open>userCorrectGuesses\<close>, and
  \<^verbatim>\<open>correctCount\<close> exceeds \<^verbatim>\<open>found\<close> by the number of missed neighbors.
\<close>

theorem found_counts_player_guesses:
  "(played b d issued s \<longrightarrow>
      userCorrectGuesses s \<subseteq> set issued \<inter> set (neighbors s)
      \<and> found (st_progress (getState s)) \<le> length issued
      \<and> found (st_progress (getState s)) \<le> correctCount (getState s)
      \<and> (\<forall>g \<in> set (guesses s). g_revealed g \<longrightarrow> g_code g \<in> correctGuesses s)
      \<and> played b d issued (fst (submit d s)))
   \<and> (reachable b d s \<longrightarrow> (\<exists>issued. played b d issued s))
   \<and> (guesses s \<noteq> [] \<longrightarrow>
        userCorrectGuesses (fst (submit d s)) =
          userCorrectGuesses s \<union> (correctCodes (guesses s) - correctGuesses s)
        \<and> (\<exists>ext. guesses (fst (submit d s)) = guesses s @ ext
             \<and> (\<forall>g \<in> set ext. g_revealed g
                   \<and> g_code g \<in> correctGuesses (fst (submit d s))
                   \<and> g_code g \<notin> userCorrectGuesses (fst (submit d s)) - userCorrectGuesses s)))
   \<and> (guessing b d s \<and> guesses s \<noteq> [] \<longrightarrow>
        found (st_progress (getState (fst (submit d s)))) = card (correctCodes (guesses s))
        \<and> found (st_progress (getState (fst (submit d s)))) \<le> length (guesses s)
        \<and> filter (\<lambda>g. \<not> g_revealed g) (guesses (fst (submit d s))) = guesses s
        \<and> (\<forall>g \<in> set (guesses (fst (submit d s))). g_revealed g \<longrightarrow>
              g_code g \<notin> userCorrectGuesses (fst (submit d s))
              \<and> g_code g \<in> correctGuesses (fst (submit d s)))
        \<and> correctCount (getState (fst (submit d s))) =
            found (st_progress (getState (fst (submit d s)))) + card (missedNeighbors s))"
proof -
  have 1: "userCorrectGuesses s \<subseteq> set issued \<inter> set (neighbors s)
      \<and> found (st_progress (getState s)) \<le> length issued
      \<and> found (st_progress (getState s)) \<le> correctCount (getState s)
      \<and> (\<forall>g \<in> set (guesses s). g_revealed g \<longrightarrow> g_code g \<in> correctGuesses s)
      \<and> played b d issued (fst (submit d s))"
    if "played b d issued s"
    using played_found[OF that] p_submit[OF that] by blast
  have 2: "reachable b d s \<longrightarrow> (\<exists>issued. played b d issued s)"
    using reachable_played by blast
  have 3: "userCorrectGuesses (fst (submit d s)) =
          userCorrectGuesses s \<union> (correctCodes (guesses s) - correctGuesses s)
        \<and> (\<exists>ext. guesses (fst (submit d s)) = guesses s @ ext
             \<and> (\<forall>g \<in> set ext. g_revealed g
                   \<and> g_code g \<in> correctGuesses (fst (submit d s))
                   \<and> g_code g \<notin> userCorrectGuesses (fst (submit d s)) - userCorrectGuesses s))"
    if "guesses s \<noteq> []"
    using submit_sets(2)[OF that, of d] submit_synthesized[OF that, of d] by blast
  show ?thesis
    apply (intro conjI)
    subgoal using 1 by blast
    subgoal by (rule 2)
    subgoal using 3 by blast
    subgoal using found_after_submit[of b d s] by blast
    done
qed

text \<open>
  On the example round the player adds Spain and Germany, submits, removes the guess
  Spain and submits again. The second \<^verbatim>\<open>submit\<close> synthesizes a revealed guess for Spain;
  \<^verbatim>\<open>found\<close> stays 2, the number of guesses the player issued, while one guess of the
  list is without the \<^verbatim>\<open>revealed\<close> mark. After the first \<^verbatim>\<open>submit\<close> of the round with
  the single guess Spain, \<^verbatim>\<open>found\<close> is 1 and \<^verbatim>\<open>correctCount\<close> is 2.
\<close>

theorem found_counts_player_guesses_witness:
  "played latin1 demo [''ESP'', ''DEU''] demoResubmitted
   \<and> guesses demoResubmitted = [germanyGuess, spainRevealed]
   \<and> found (st_progress (getState demoResubmitted)) = 2
   \<and> length (filter (\<lambda>g. \<not> g_revealed g) (guesses demoResubmitted)) = 1
   \<and> found (st_progress (getState demoResubmitted)) \<le> length [''ESP'', ''DEU'']
   \<and> correctCount (getState demoResubmitted) = 2
   \<and> guessing latin1 demo demoGuessed \<and> guesses demoGuessed \<noteq> []
   \<and> found (st_progress (getState (fst (submit demo demoGuessed)))) = 1
   \<and> length (guesses demoGuessed) = 1
   \<and> correctCount (getState (fst (submit demo demoGuessed))) = 2"
proof -
  have h2: "guesses demoGuessed \<noteq> []" by (simp add: demo_guessed_facts)
  have c: "card (correctCodes (guesses demoGuessed)) = 1"
    by (simp add: demo_guessed_facts correctCodes_Cons spainGuess_def)
  have m: "card (missedNeighbors demoGuessed) = 1"
    by (simp add: demo_guessed_facts missedNeighbors_filter guessCodes_def spainGuess_def)
  from found_counts_player_guesses[of latin1 demo "[''ESP'', ''DEU'']" demoGuessed]
    c m demo_guessing h2
  have first: "found (st_progress (getState (fst (submit demo demoGuessed)))) = 1
      \<and> correctCount (getState (fst (submit demo demoGuessed))) = 2"
    by simp
  from found_counts_player_guesses[of latin1 demo "[''ESP'', ''DEU'']" demoResubmitted] demo_played
  have le: "found (st_progress (getState demoResubmitted)) \<le> length [''ESP'', ''DEU'']"
    by blast
  have f: "found (st_progress (getState demoResubmitted)) = 2"
    "correctCount (getState demoResubmitted) = 2"
    "guesses demoResubmitted = [germanyGuess, spainRevealed]"
    "length (filter (\<lambda>g. \<not> g_revealed g) (guesses demoResubmitted)) = 1"
    by (simp_all add: getState_def demoResubmitted_def demoBothFinal_def demoStart_def
        germanyGuess_def spainRevealed_def)
  from first le f demo_played demo_guessing h2 show ?thesis
    by (simp add: demo_guessed_facts)
qed

end
